theory Spec2Isabelle
  imports Main
begin

section \<open>The field hook of the form library (use_field.ts)\<close>

text \<open>
  \<^verbatim>\<open>useField(form, path, config)\<close> keeps the state of one form field: its value, its list
  of validation errors and three flags, and exposes \<^verbatim>\<open>setValue\<close>, \<^verbatim>\<open>onChange\<close>,
  \<^verbatim>\<open>validate\<close>, \<^verbatim>\<open>clearErrors\<close>, \<^verbatim>\<open>setErrors\<close> and \<^verbatim>\<open>getErrorsMessages\<close>.
  The React state cells (\<^verbatim>\<open>useState\<close>, \<^verbatim>\<open>useRef\<close>) become the fields of one record
  that every operation takes and returns; a state setter called with an updater function
  is the application of that function to the record. Each operation is taken to be called
  on the field as last rendered, so that the constants \<^verbatim>\<open>value\<close> and \<^verbatim>\<open>isPristine\<close>
  of the closure are the state's.
\<close>

subsection \<open>Constants\<close>

text \<open>
  Modelled from the spec: the module \<^verbatim>\<open>../constants\<close> with \<^verbatim>\<open>VALIDATION_TYPES\<close> and
  \<^verbatim>\<open>FIELD_TYPES\<close> is not among the sources. The specification names the validation
  types "field" (the default) and "async", and the field kinds text and number.
\<close>

definition VALIDATION_TYPES_FIELD :: string where
  "VALIDATION_TYPES_FIELD = ''field''"

definition VALIDATION_TYPES_ASYNC :: string where
  "VALIDATION_TYPES_ASYNC = ''async''"

definition FIELD_TYPES_TEXT :: string where
  "FIELD_TYPES_TEXT = ''text''"

definition FIELD_TYPES_NUMBER :: string where
  "FIELD_TYPES_NUMBER = ''number''"

subsection \<open>Values and validation errors\<close>

text \<open>
  A field value is \<^verbatim>\<open>unknown\<close> in the source. The code looks at a value in three
  places only: \<^verbatim>\<open>typeof input === 'string'\<close> in \<^verbatim>\<open>runFormatters\<close>, the boolean
  \<^verbatim>\<open>checked\<close> of an input event, and wherever a default of a parameter or of a
  destructuring stands in for an undefined value (\<^verbatim>\<open>rawValue = value\<close>,
  \<^verbatim>\<open>value: valueToValidate = value\<close>, \<^verbatim>\<open>defaultValue = ''\<close>). Every other value (a
  number, an object, null) is opaque and carried by the type parameter.
\<close>

datatype 'a jsval = JUndefined | JString string | JBoolean bool | JOther 'a

text \<open>
  An optional string property of an object: \<^verbatim>\<open>hasOwnProperty\<close> tells an absent
  property from one that is there with the value undefined, and \<^verbatim>\<open>===\<close> against a
  string holds for neither.
\<close>

datatype property = Absent | Undefined | Present string

text \<open>
  A \<^verbatim>\<open>ValidationError\<close>: its message (a string, as the cast \<^verbatim>\<open>error.message as string\<close>
  of the source has it), its optional \<^verbatim>\<open>validationType\<close> and whatever other fields the
  validator attached.
\<close>

record ValidationError =
  message :: string
  validationType :: property
  extra :: "(string \<times> string) list"

text \<open>The argument of \<^verbatim>\<open>filterErrors\<close> and \<^verbatim>\<open>clearErrors\<close>: \<^verbatim>\<open>string | string[]\<close>.\<close>

datatype type_arg = One string | Many "string list"

type_synonym 'a form_data = "string \<Rightarrow> 'a jsval option"

subsection \<open>The state of a field\<close>

text \<open>
  \<^verbatim>\<open>value\<close>, \<^verbatim>\<open>errors\<close>, \<^verbatim>\<open>isPristine\<close>, \<^verbatim>\<open>isValidating\<close> and \<^verbatim>\<open>isUpdating\<close> are the
  \<^verbatim>\<open>useState\<close> cells, \<^verbatim>\<open>validateCounter\<close> and \<^verbatim>\<open>debounceTimeout\<close> the \<^verbatim>\<open>useRef\<close>
  cells (a pending timer is the delay it was armed with). \<^verbatim>\<open>form_store\<close> is the form
  data the coordinator holds, read by \<^verbatim>\<open>form.__getFormData\<close> and written by
  \<^verbatim>\<open>form.__updateFormDataAt\<close>. The counter is a JavaScript number that starts at 0 and
  is incremented by one per call of \<^verbatim>\<open>validate\<close>; it is a natural number here.
\<close>

record 'a FieldState =
  "value" :: "'a jsval"
  errors :: "ValidationError list"
  isPristine :: bool
  isValidating :: bool
  isUpdating :: bool
  validateCounter :: nat
  debounceTimeout :: "nat option"
  form_store :: "'a form_data"

subsection \<open>Helpers on the error list\<close>

text \<open>
  \<^verbatim>\<open>
  const filterErrors = (_errors, validationTypeToFilterOut = VALIDATION_TYPES.FIELD) => {
    const validationTypeToArray = Array.isArray(validationTypeToFilterOut)
      ? validationTypeToFilterOut : [validationTypeToFilterOut];
    return _errors.filter(error =>
      validationTypeToArray.every(_type => error.validationType !== _type));
  };
  \<close>
  The argument \<open>None\<close> is an omitted (undefined) argument, which takes the default.
\<close>

definition validationTypeToArray :: "type_arg option \<Rightarrow> string list" where
  "validationTypeToArray validationTypeToFilterOut =
     (case validationTypeToFilterOut of
        None \<Rightarrow> [VALIDATION_TYPES_FIELD]
      | Some (One t) \<Rightarrow> [t]
      | Some (Many ts) \<Rightarrow> ts)"

definition filterErrors :: "ValidationError list \<Rightarrow> type_arg option \<Rightarrow> ValidationError list" where
  "filterErrors errs validationTypeToFilterOut =
     filter (\<lambda>error. list_all (\<lambda>t. validationType error \<noteq> Present t)
                       (validationTypeToArray validationTypeToFilterOut)) errs"

text \<open>
  \<^verbatim>\<open>
  const clearErrors = (validationType = VALIDATION_TYPES.FIELD) => {
    setErrors(previousErrors => filterErrors(previousErrors, validationType));
  };
  \<close>
\<close>

definition clearErrors :: "type_arg option \<Rightarrow> 'a FieldState \<Rightarrow> 'a FieldState" where
  "clearErrors validationTypeArg s =
     (let validationTypeArg' =
            (case validationTypeArg of None \<Rightarrow> One VALIDATION_TYPES_FIELD | Some a \<Rightarrow> a)
      in s\<lparr>errors := filterErrors (errors s) (Some validationTypeArg')\<rparr>)"

text \<open>The exposed state setter \<^verbatim>\<open>setErrors\<close>, called with a list.\<close>

definition setErrors :: "ValidationError list \<Rightarrow> 'a FieldState \<Rightarrow> 'a FieldState" where
  "setErrors errs s = s\<lparr>errors := errs\<rparr>"

text \<open>
  \<^verbatim>\<open>
  const getErrorsMessages = (validationType = VALIDATION_TYPES.FIELD) => {
    const errorMessages = errors.reduce((messages, error) => {
      if (error.validationType === validationType ||
          (validationType === VALIDATION_TYPES.FIELD &&
            !{}.hasOwnProperty.call(error, 'validationType'))) {
        return messages ? `${messages}, ${error.message}` : (error.message as string);
      }
      return messages;
    }, '');
    return errorMessages ? errorMessages : null;
  };
  \<close>
  A string is truthy when it is not empty; the result \<open>None\<close> is \<^verbatim>\<open>null\<close>.
\<close>

definition error_matches :: "string \<Rightarrow> ValidationError \<Rightarrow> bool" where
  "error_matches t error \<longleftrightarrow>
     validationType error = Present t \<or>
     (t = VALIDATION_TYPES_FIELD \<and> validationType error = Absent)"

definition getErrorsMessages :: "'a FieldState \<Rightarrow> string option \<Rightarrow> string option" where
  "getErrorsMessages s validationTypeArg =
     (let t = (case validationTypeArg of None \<Rightarrow> VALIDATION_TYPES_FIELD | Some t' \<Rightarrow> t');
          errorMessages =
            foldl (\<lambda>messages error.
                     if error_matches t error
                     then (if messages \<noteq> [] then messages @ '', '' @ message error
                           else message error)
                     else messages)
                  [] (errors s)
      in if errorMessages \<noteq> [] then Some errorMessages else None)"

subsection \<open>Validators and their configuration\<close>

text \<open>
  A validator is called with \<^verbatim>\<open>{value, errors, formData, path}\<close>. It returns a failure
  (a truthy \<^verbatim>\<open>ValidationError\<close>) or nothing, or it throws; in asynchronous mode the
  awaited promise resolves or rejects likewise. \<open>None\<close> is undefined (any falsy value).
\<close>

record 'a ValidatorData =
  data_value :: "'a jsval"
  data_errors :: "ValidationError list"
  data_formData :: "'a form_data"
  data_path :: string

datatype outcome = Returns "ValidationError option" | Throws "ValidationError option"

text \<open>The \<^verbatim>\<open>message\<close> of a validation: a literal, or a function of the failure.\<close>

datatype message_config = MessageText string | MessageFunction "ValidationError \<Rightarrow> string"

text \<open>
  A \<^verbatim>\<open>ValidationConfig\<close>: \<^verbatim>\<open>{validator, exitOnFail?, type?, message?}\<close>; the
  properties \<^verbatim>\<open>type\<close> and \<^verbatim>\<open>message\<close> are \<open>validation_type\<close> and
  \<open>validation_message\<close> here.
\<close>

record 'a ValidationConfig =
  validator :: "'a ValidatorData \<Rightarrow> outcome"
  exitOnFail :: "bool option"
  validation_type :: "string option"
  validation_message :: "message_config option"

text \<open>
  \<^verbatim>\<open>
  const getValidationErrorWithMessage = (validation, validationResult) => {
    const message = typeof validation.message !== 'undefined'
      ? validation.message : validationResult.message;
    return { ...validationResult,
             message: typeof message === 'function' ? message(validationResult) : message };
  };
  \<close>
\<close>

definition getValidationErrorWithMessage ::
  "'a ValidationConfig \<Rightarrow> ValidationError \<Rightarrow> ValidationError" where
  "getValidationErrorWithMessage validation validationResult =
     validationResult\<lparr>message :=
       (case validation_message validation of
          None \<Rightarrow> message validationResult
        | Some (MessageText m) \<Rightarrow> m
        | Some (MessageFunction f) \<Rightarrow> f validationResult)\<rparr>"

text \<open>
  The tag an error gets: \<^verbatim>\<open>validation.type || VALIDATION_TYPES.FIELD\<close> (an empty string
  is falsy), and the type a validation is selected by: the destructuring default
  \<^verbatim>\<open>type: validationType = VALIDATION_TYPES.FIELD\<close> (for undefined only).
\<close>

definition error_tag :: "'a ValidationConfig \<Rightarrow> string" where
  "error_tag validation =
     (case validation_type validation of
        None \<Rightarrow> VALIDATION_TYPES_FIELD
      | Some t \<Rightarrow> if t = [] then VALIDATION_TYPES_FIELD else t)"

definition selected_type :: "'a ValidationConfig \<Rightarrow> string" where
  "selected_type validation =
     (case validation_type validation of None \<Rightarrow> VALIDATION_TYPES_FIELD | Some t \<Rightarrow> t)"

subsection \<open>Running the validations\<close>

text \<open>
  The argument object of \<^verbatim>\<open>validateSync\<close> and \<^verbatim>\<open>validateAsync\<close>, with the \<^verbatim>\<open>path\<close>
  of the closure.
\<close>

record 'a RunArgs =
  arg_formData :: "'a form_data"
  arg_value :: "'a jsval"
  arg_validationTypeToValidate :: "string option"
  arg_path :: string

text \<open>
  The locals of a run: the array \<^verbatim>\<open>validationErrors\<close> and the flag \<^verbatim>\<open>skip\<close>. Calling
  a validator is the one effect of a run outside them; \<open>invoked\<close> logs it: the position
  of each validation whose validator was called, with what the call gave.
\<close>

record RunState =
  validationErrors :: "ValidationError list"
  skip :: bool
  invoked :: "(nat \<times> outcome) list"

definition validator_data :: "'a RunArgs \<Rightarrow> RunState \<Rightarrow> 'a ValidatorData" where
  "validator_data args st =
     \<lparr>data_value = arg_value args, data_errors = validationErrors st,
      data_formData = arg_formData args, data_path = arg_path args\<rparr>"

text \<open>
  \<^verbatim>\<open>
  const runValidation = ({ validator, exitOnFail, type: validationType = FIELD }) => {
    if (skip || (typeof validationTypeToValidate !== 'undefined' &&
                 validationType !== validationTypeToValidate)) { return; }
    let validationResult;
    try {
      validationResult = validator({ value, errors: validationErrors, formData, path });
      if (validationResult && exitOnFail !== false) { throw validationResult; }
    } catch (error) {
      // If an error is thrown, skip the rest of the validations
      skip = true;
      validationResult = error;
    }
    return validationResult;
  };
  \<close>
  \<open>i\<close> is the position of the validation in \<^verbatim>\<open>validations\<close>, for the log.
\<close>

definition runValidation ::
  "'a RunArgs \<Rightarrow> nat \<Rightarrow> 'a ValidationConfig \<Rightarrow> RunState \<Rightarrow> ValidationError option \<times> RunState" where
  "runValidation args i validation st =
     (if skip st \<or>
         (arg_validationTypeToValidate args \<noteq> None \<and>
          Some (selected_type validation) \<noteq> arg_validationTypeToValidate args)
      then (None, st)
      else
        let out = validator validation (validator_data args st);
            st1 = st\<lparr>invoked := invoked st @ [(i, out)]\<rparr>
        in case out of
             Returns validationResult \<Rightarrow>
               if validationResult \<noteq> None \<and> exitOnFail validation \<noteq> Some False
               then (validationResult, st1\<lparr>skip := True\<rparr>)
               else (validationResult, st1)
           | Throws error \<Rightarrow> (error, st1\<lparr>skip := True\<rparr>))"

text \<open>
  The body of \<^verbatim>\<open>validations.forEach\<close>:
  \<^verbatim>\<open>
    const validationResult = runValidation(validation);
    if (validationResult) {
      const error = getValidationErrorWithMessage(validation, validationResult);
      validationErrors.push({ ...error, validationType: validation.type || FIELD });
    }
  \<close>
\<close>

definition normalize_error :: "'a ValidationConfig \<Rightarrow> ValidationError \<Rightarrow> ValidationError" where
  "normalize_error validation validationResult =
     (getValidationErrorWithMessage validation validationResult)
       \<lparr>validationType := Present (error_tag validation)\<rparr>"

definition validation_step ::
  "'a RunArgs \<Rightarrow> nat \<Rightarrow> 'a ValidationConfig \<Rightarrow> RunState \<Rightarrow> RunState" where
  "validation_step args i validation st =
     (case runValidation args i validation st of
        (None, st1) \<Rightarrow> st1
      | (Some validationResult, st1) \<Rightarrow>
          st1\<lparr>validationErrors :=
                validationErrors st1 @ [normalize_error validation validationResult]\<rparr>)"

fun forEach_validation ::
  "'a RunArgs \<Rightarrow> nat \<Rightarrow> 'a ValidationConfig list \<Rightarrow> RunState \<Rightarrow> RunState" where
  "forEach_validation args i [] st = st"
| "forEach_validation args i (validation # rest) st =
     forEach_validation args (Suc i) rest (validation_step args i validation st)"

definition run_start :: RunState where
  "run_start = \<lparr>validationErrors = [], skip = False, invoked = []\<rparr>"

definition validateSync_run :: "'a ValidationConfig list \<Rightarrow> 'a RunArgs \<Rightarrow> RunState" where
  "validateSync_run validations args = forEach_validation args 0 validations run_start"

definition validateSync :: "'a ValidationConfig list \<Rightarrow> 'a RunArgs \<Rightarrow> ValidationError list" where
  "validateSync validations args = validationErrors (validateSync_run validations args)"

text \<open>
  \<^verbatim>\<open>validateAsync\<close> has the same loop, written as a chain of promises: each validator is
  awaited before the next validation is looked at, so the run is the same sequence of
  steps. A validator that rejects is one that throws. Its first statement,
  \<^verbatim>\<open>clearErrors([FIELD, ASYNC])\<close>, acts on the state of the field and is part of
  \<open>validate_begin\<close> below.
  \<^verbatim>\<open>
  const runValidation = async ({ validator, exitOnFail, type: validationType = FIELD }) => {
    if (skip || (typeof validationTypeToValidate !== 'undefined' &&
                 validationType !== validationTypeToValidate)) { return; }
    let validationResult;
    try {
      validationResult = await validator({ value, errors: validationErrors, formData, path });
      if (validationResult && exitOnFail !== false) { throw validationResult; }
    } catch (error) { skip = true; validationResult = error; }
    return validationResult;
  };
  await validations.reduce((promise, validation) => promise.then(async () => {
      const validationResult = await runValidation(validation);
      if (validationResult) {
        const error = getValidationErrorWithMessage(validation, validationResult);
        validationErrors.push({ ...error, validationType: validation.type || FIELD });
      }
    }), Promise.resolve());
  \<close>
\<close>

definition runValidation_async ::
  "'a RunArgs \<Rightarrow> nat \<Rightarrow> 'a ValidationConfig \<Rightarrow> RunState \<Rightarrow> ValidationError option \<times> RunState" where
  "runValidation_async args i validation st =
     (if skip st \<or>
         (arg_validationTypeToValidate args \<noteq> None \<and>
          Some (selected_type validation) \<noteq> arg_validationTypeToValidate args)
      then (None, st)
      else
        let out = validator validation (validator_data args st);
            st1 = st\<lparr>invoked := invoked st @ [(i, out)]\<rparr>
        in case out of
             Returns validationResult \<Rightarrow>
               if validationResult \<noteq> None \<and> exitOnFail validation \<noteq> Some False
               then (validationResult, st1\<lparr>skip := True\<rparr>)
               else (validationResult, st1)
           | Throws error \<Rightarrow> (error, st1\<lparr>skip := True\<rparr>))"

definition validation_step_async ::
  "'a RunArgs \<Rightarrow> nat \<Rightarrow> 'a ValidationConfig \<Rightarrow> RunState \<Rightarrow> RunState" where
  "validation_step_async args i validation st =
     (case runValidation_async args i validation st of
        (None, st1) \<Rightarrow> st1
      | (Some validationResult, st1) \<Rightarrow>
          st1\<lparr>validationErrors :=
                validationErrors st1 @ [normalize_error validation validationResult]\<rparr>)"

fun reduce_validation ::
  "'a RunArgs \<Rightarrow> nat \<Rightarrow> 'a ValidationConfig list \<Rightarrow> RunState \<Rightarrow> RunState" where
  "reduce_validation args i [] st = st"
| "reduce_validation args i (validation # rest) st =
     reduce_validation args (Suc i) rest (validation_step_async args i validation st)"

definition validateAsync_run :: "'a ValidationConfig list \<Rightarrow> 'a RunArgs \<Rightarrow> RunState" where
  "validateAsync_run validations args = reduce_validation args 0 validations run_start"

definition validateAsync :: "'a ValidationConfig list \<Rightarrow> 'a RunArgs \<Rightarrow> ValidationError list" where
  "validateAsync validations args = validationErrors (validateAsync_run validations args)"

subsection \<open>The configuration and the closure of the hook\<close>

text \<open>
  \<^verbatim>\<open>defaultValue\<close> is a value or a function of no argument that produces one.
\<close>

datatype 'a default_value = DefaultLiteral "'a jsval" | DefaultProducer "unit \<Rightarrow> 'a jsval"

text \<open>
  The properties of \<^verbatim>\<open>config\<close> that the functions of the hook read, each optional
  (\<open>None\<close> is undefined). \<^verbatim>\<open>label\<close>, \<^verbatim>\<open>helpText\<close> and \<^verbatim>\<open>fieldsToValidateOnChange\<close>
  are only handed on to the form and are left out.
\<close>

record 'a FieldConfig =
  config_defaultValue :: "'a default_value option"
  config_type :: "string option"
  config_validations :: "'a ValidationConfig list option"
  config_formatters :: "('a jsval \<Rightarrow> 'a jsval) list option"
  config_isValidationAsync :: "bool option"
  config_errorDisplayDelay :: "nat option"
  config_serializer :: "('a jsval \<Rightarrow> 'a jsval) option"
  config_deSerializer :: "('a jsval \<Rightarrow> 'a jsval) option"

text \<open>
  The constants that the functions defined inside \<^verbatim>\<open>useField\<close> close over: \<^verbatim>\<open>path\<close> and
  the destructured configuration.
\<close>

record 'a Closure =
  path :: string
  "type" :: string
  validations :: "'a ValidationConfig list"
  formatters :: "('a jsval \<Rightarrow> 'a jsval) list"
  isValidationAsync :: bool
  errorDisplayDelay :: nat
  serializer :: "'a jsval \<Rightarrow> 'a jsval"
  deSerializer :: "'a jsval \<Rightarrow> 'a jsval"

text \<open>
  \<^verbatim>\<open>
  const setDefaultFormatter = () => {
    if (formatters.length > 0) { return; }
    if (type === FIELD_TYPES.NUMBER) { formatters.push(toInt); }
  };
  \<close>
  The source pushes onto the array; the function gives the array after the call.
  \<^verbatim>\<open>toInt\<close> comes from \<^verbatim>\<open>fieldFormatters\<close> of \<^verbatim>\<open>../lib\<close>, which is not among the sources:
  it is a parameter.
\<close>

definition setDefaultFormatter ::
  "('a jsval \<Rightarrow> 'a jsval) \<Rightarrow> string \<Rightarrow> ('a jsval \<Rightarrow> 'a jsval) list \<Rightarrow> ('a jsval \<Rightarrow> 'a jsval) list" where
  "setDefaultFormatter toInt ty fmts =
     (if length fmts > 0 then fmts
      else if ty = FIELD_TYPES_NUMBER then fmts @ [toInt]
      else fmts)"

text \<open>
  The first lines of \<^verbatim>\<open>useField\<close>: the defaults of the destructuring
  (\<^verbatim>\<open>type = FIELD_TYPES.TEXT\<close>, \<^verbatim>\<open>validations = []\<close>, \<^verbatim>\<open>formatters = []\<close>,
  \<^verbatim>\<open>isValidationAsync = false\<close>, \<^verbatim>\<open>errorDisplayDelay = form.options.errorDisplayDelay\<close>,
  identity for \<^verbatim>\<open>serializer\<close> and \<^verbatim>\<open>deSerializer\<close>), then \<^verbatim>\<open>setDefaultFormatter()\<close>.
\<close>

definition useField_closure ::
  "('a jsval \<Rightarrow> 'a jsval) \<Rightarrow> nat \<Rightarrow> string \<Rightarrow> 'a FieldConfig \<Rightarrow> 'a Closure" where
  "useField_closure toInt form_errorDisplayDelay p config =
     (let ty = (case config_type config of None \<Rightarrow> FIELD_TYPES_TEXT | Some t \<Rightarrow> t);
          fmts = (case config_formatters config of None \<Rightarrow> [] | Some fs \<Rightarrow> fs)
      in \<lparr>path = p,
          type = ty,
          validations = (case config_validations config of None \<Rightarrow> [] | Some vs \<Rightarrow> vs),
          formatters = setDefaultFormatter toInt ty fmts,
          isValidationAsync = (case config_isValidationAsync config of None \<Rightarrow> False | Some b \<Rightarrow> b),
          errorDisplayDelay =
            (case config_errorDisplayDelay config of None \<Rightarrow> form_errorDisplayDelay | Some d \<Rightarrow> d),
          serializer = (case config_serializer config of None \<Rightarrow> (\<lambda>v. v) | Some f \<Rightarrow> f),
          deSerializer = (case config_deSerializer config of None \<Rightarrow> (\<lambda>v. v) | Some f \<Rightarrow> f)\<rparr>)"

text \<open>
  The initial values of the state cells:
  \<^verbatim>\<open>
  useState(typeof defaultValue === 'function'
    ? deSerializer(defaultValue()) : deSerializer(defaultValue));      // defaultValue = ''
  useState([]); useState(true); useState(false); useState(false); useRef(0); useRef(null);
  \<close>
\<close>

definition useField_state :: "'a Closure \<Rightarrow> 'a FieldConfig \<Rightarrow> 'a form_data \<Rightarrow> 'a FieldState" where
  "useField_state h config store =
     \<lparr>value =
        (case config_defaultValue config of
           None \<Rightarrow> deSerializer h (JString [])
         | Some (DefaultLiteral v) \<Rightarrow>
             deSerializer h (if v = JUndefined then JString [] else v)
         | Some (DefaultProducer f) \<Rightarrow> deSerializer h (f ())),
      errors = [],
      isPristine = True,
      isValidating = False,
      isUpdating = False,
      validateCounter = 0,
      debounceTimeout = None,
      form_store = store\<rparr>"

subsection \<open>Changing the value\<close>

text \<open>
  \<^verbatim>\<open>String.prototype.trim\<close> removes white space and line terminators at both ends. A
  \<open>char\<close> is a code unit below 256 here; the white space among those is tab, line feed,
  vertical tab, form feed, carriage return, space and the no-break space.
\<close>

definition js_whitespace :: "char \<Rightarrow> bool" where
  "js_whitespace c \<longleftrightarrow> (of_char c :: nat) \<in> {9, 10, 11, 12, 13, 32, 160}"

definition trim :: "string \<Rightarrow> string" where
  "trim str = rev (dropWhile js_whitespace (rev (dropWhile js_whitespace str)))"

text \<open>
  \<^verbatim>\<open>
  const runFormatters = (input) => {
    const isEmptyString = typeof input === 'string' && input.trim() === '';
    if (isEmptyString) { return input; }
    return formatters.reduce((output, formatter) => formatter(output), input);
  };
  \<close>
\<close>

definition runFormatters :: "'a Closure \<Rightarrow> 'a jsval \<Rightarrow> 'a jsval" where
  "runFormatters h input =
     (let isEmptyString = (case input of JString str \<Rightarrow> trim str = [] | _ \<Rightarrow> False)
      in if isEmptyString then input
         else foldl (\<lambda>output formatter. formatter output) input (formatters h))"

text \<open>
  \<^verbatim>\<open>
  const onValueChange = () => {
    if (isPristine) { setPristine(false); }
    setIsUpdating(true);
    if (debounceTimeout.current) { clearTimeout(debounceTimeout.current); }
    debounceTimeout.current = setTimeout(() => { setIsUpdating(false); }, errorDisplayDelay);
  };
  \<close>
  Clearing the pending timer and arming the new one is the assignment of the new timer;
  \<open>timer_expires\<close> is its callback.
\<close>

definition onValueChange :: "'a Closure \<Rightarrow> 'a FieldState \<Rightarrow> 'a FieldState" where
  "onValueChange h s =
     (let s1 = (if isPristine s then s\<lparr>isPristine := False\<rparr> else s);
          s2 = s1\<lparr>isUpdating := True\<rparr>
      in s2\<lparr>debounceTimeout := Some (errorDisplayDelay h)\<rparr>)"

definition timer_expires :: "'a FieldState \<Rightarrow> 'a FieldState" where
  "timer_expires s = s\<lparr>isUpdating := False\<rparr>"

text \<open>
  \<^verbatim>\<open>const getOutputValue = (rawValue = value) => serializer(rawValue);\<close>
  The default stands in for an argument that is omitted or undefined: \<open>JUndefined\<close> is
  both. \<^verbatim>\<open>value\<close> is the constant of the closure, the value of the state the function
  was made in.
\<close>

definition getOutputValue :: "'a Closure \<Rightarrow> 'a FieldState \<Rightarrow> 'a jsval \<Rightarrow> 'a jsval" where
  "getOutputValue h s rawValue =
     serializer h (if rawValue = JUndefined then value s else rawValue)"

text \<open>
  \<^verbatim>\<open>
  const setValue = newValue => {
    onValueChange();
    const formattedValue = runFormatters(newValue);
    setStateValue(formattedValue);
    form.__updateFormDataAt(path, getOutputValue(formattedValue));
  };
  \<close>
  \<^verbatim>\<open>setStateValue\<close> does not change the constant \<^verbatim>\<open>value\<close> of the closure that
  \<^verbatim>\<open>getOutputValue\<close> reads: for an undefined \<^verbatim>\<open>formattedValue\<close> the form data gets the
  serialized value of the state before the call.
\<close>

definition setValue :: "'a Closure \<Rightarrow> 'a jsval \<Rightarrow> 'a FieldState \<Rightarrow> 'a FieldState" where
  "setValue h newValue s =
     (let s1 = onValueChange h s;
          formattedValue = runFormatters h newValue;
          s2 = s1\<lparr>value := formattedValue\<rparr>
      in s2\<lparr>form_store := (form_store s2)(path h \<mapsto> getOutputValue h s formattedValue)\<rparr>)"

text \<open>
  \<^verbatim>\<open>
  const onChange = event => {
    const newValue = {}.hasOwnProperty.call(event.target, 'checked')
      ? event.target.checked : event.target.value;
    setValue(newValue);
  };
  \<close>
\<close>

record ChangeEvent =
  target_checked :: "bool option"
  target_value :: string

definition onChange :: "'a Closure \<Rightarrow> ChangeEvent \<Rightarrow> 'a FieldState \<Rightarrow> 'a FieldState" where
  "onChange h event s =
     (let newValue = (case target_checked event of
                        Some checked \<Rightarrow> JBoolean checked
                      | None \<Rightarrow> JString (target_value event))
      in setValue h newValue s)"

subsection \<open>validate\<close>

text \<open>The argument of \<^verbatim>\<open>validate\<close> and its response.\<close>

record 'a ValidationData =
  data_formData_opt :: "'a form_data option"
  data_value_opt :: "'a jsval option"
  data_validationType :: "string option"

record FieldValidateResponse =
  isValid :: bool
  response_errors :: "ValidationError list"

text \<open>
  \<^verbatim>\<open>
  const onValidationResult = (validationErrors) => {
    if (validateIteration === validateCounter.current) {
      setValidating(false);
      setErrors(previousErrors => {
        const filteredErrors = filterErrors(previousErrors, validationType);
        return [...filteredErrors, ...validationErrors];
      });
    }
    return { isValid: validationErrors.length === 0, errors: validationErrors };
  };
  \<close>
  \<^verbatim>\<open>validateIteration\<close> and \<^verbatim>\<open>validationType\<close> are those of the call of \<^verbatim>\<open>validate\<close> that
  made the callback.
\<close>

definition onValidationResult ::
  "nat \<Rightarrow> string option \<Rightarrow> ValidationError list \<Rightarrow> 'a FieldState \<Rightarrow>
   FieldValidateResponse \<times> 'a FieldState" where
  "onValidationResult validateIteration validationTypeArg validationErrs s =
     (let s' = (if validateIteration = validateCounter s
                then (s\<lparr>isValidating := False\<rparr>)
                       \<lparr>errors := filterErrors (errors s) (map_option One validationTypeArg)
                                  @ validationErrs\<rparr>
                else s)
      in (\<lparr>isValid = (length validationErrs = 0), response_errors = validationErrs\<rparr>, s'))"

text \<open>
  The start of \<^verbatim>\<open>validate\<close>, common to both modes:
  \<^verbatim>\<open>
  const { formData = form.__getFormData({ unflatten: false }),
          value: valueToValidate = value, validationType } = validationData;
  setValidating(true);
  const validateIteration = ++validateCounter.current;
  \<close>
\<close>

definition validate_args :: "'a Closure \<Rightarrow> 'a ValidationData \<Rightarrow> 'a FieldState \<Rightarrow> 'a RunArgs" where
  "validate_args h validationData s =
     \<lparr>arg_formData = (case data_formData_opt validationData of
                        None \<Rightarrow> form_store s | Some fd \<Rightarrow> fd),
      arg_value = (case data_value_opt validationData of
                     None \<Rightarrow> value s
                   | Some v \<Rightarrow> if v = JUndefined then value s else v),
      arg_validationTypeToValidate = data_validationType validationData,
      arg_path = path h\<rparr>"

definition validate_begin :: "'a FieldState \<Rightarrow> nat \<times> 'a FieldState" where
  "validate_begin s =
     (let s1 = s\<lparr>isValidating := True\<rparr>;
          s2 = s1\<lparr>validateCounter := Suc (validateCounter s1)\<rparr>
      in (validateCounter s2, s2))"

text \<open>
  The synchronous branch:
  \<^verbatim>\<open>
  const validationErrors = validateSync({ formData, value, validationTypeToValidate });
  return onValidationResult(validationErrors);
  \<close>
\<close>

definition validate_sync ::
  "'a Closure \<Rightarrow> 'a ValidationData \<Rightarrow> 'a FieldState \<Rightarrow> FieldValidateResponse \<times> 'a FieldState" where
  "validate_sync h validationData s =
     (let args = validate_args h validationData s;
          (validateIteration, s2) = validate_begin s;
          validationErrs = validateSync (validations h) args
      in onValidationResult validateIteration (data_validationType validationData)
           validationErrs s2)"

text \<open>
  The asynchronous branch, \<^verbatim>\<open>validateAsync({...}).then(onValidationResult)\<close>, in two
  steps. The call runs \<^verbatim>\<open>validateAsync\<close> up to its first \<^verbatim>\<open>await\<close>, which includes
  \<^verbatim>\<open>clearErrors([VALIDATION_TYPES.FIELD, VALIDATION_TYPES.ASYNC])\<close>, and leaves a
  pending promise. The run reads nothing of the field but its arguments, so the errors
  it will resolve with are those of \<open>validateAsync\<close> on them. When the promise settles,
  \<^verbatim>\<open>onValidationResult\<close> is applied to the state of the field at that moment; other
  operations may have come in between.
\<close>

record PendingValidation =
  pending_iteration :: nat
  pending_validationType :: "string option"
  pending_errors :: "ValidationError list"

definition validate_async_call ::
  "'a Closure \<Rightarrow> 'a ValidationData \<Rightarrow> 'a FieldState \<Rightarrow> PendingValidation \<times> 'a FieldState" where
  "validate_async_call h validationData s =
     (let args = validate_args h validationData s;
          (validateIteration, s2) = validate_begin s;
          s3 = clearErrors (Some (Many [VALIDATION_TYPES_FIELD, VALIDATION_TYPES_ASYNC])) s2
      in (\<lparr>pending_iteration = validateIteration,
           pending_validationType = data_validationType validationData,
           pending_errors = validateAsync (validations h) args\<rparr>, s3))"

definition validate_async_settle ::
  "PendingValidation \<Rightarrow> 'a FieldState \<Rightarrow> FieldValidateResponse \<times> 'a FieldState" where
  "validate_async_settle p s =
     onValidationResult (pending_iteration p) (pending_validationType p) (pending_errors p) s"

text \<open>
  \<^verbatim>\<open>validate\<close> itself: the response in synchronous mode, the pending promise in
  asynchronous mode (\<^verbatim>\<open>if (isValidationAsync) ... else ...\<close>).
\<close>

definition validate ::
  "'a Closure \<Rightarrow> 'a ValidationData \<Rightarrow> 'a FieldState \<Rightarrow>
   (FieldValidateResponse + PendingValidation) \<times> 'a FieldState" where
  "validate h validationData s =
     (if isValidationAsync h
      then (case validate_async_call h validationData s of (p, s') \<Rightarrow> (Inr p, s'))
      else (case validate_sync h validationData s of (r, s') \<Rightarrow> (Inl r, s')))"

subsection \<open>The operations of a field, one after the other\<close>

text \<open>
  What can act on the state of a field during its life: the exposed functions, the
  settling of a promise that \<^verbatim>\<open>validate\<close> returned, and the expiry of the timer.
\<close>

datatype 'a operation =
    SetValue "'a jsval"
  | OnChange ChangeEvent
  | Validate "'a ValidationData"
  | Settle PendingValidation
  | ClearErrors "type_arg option"
  | SetErrors "ValidationError list"
  | TimerExpires

fun step :: "'a Closure \<Rightarrow> 'a operation \<Rightarrow> 'a FieldState \<Rightarrow> 'a FieldState" where
  "step h (SetValue v) s = setValue h v s"
| "step h (OnChange event) s = onChange h event s"
| "step h (Validate validationData) s = snd (validate h validationData s)"
| "step h (Settle p) s = snd (validate_async_settle p s)"
| "step h (ClearErrors a) s = clearErrors a s"
| "step h (SetErrors errs) s = setErrors errs s"
| "step h TimerExpires s = timer_expires s"

fun steps :: "'a Closure \<Rightarrow> 'a operation list \<Rightarrow> 'a FieldState \<Rightarrow> 'a FieldState" where
  "steps h [] s = s"
| "steps h (operation # rest) s = steps h rest (step h operation s)"

section \<open>Vocabulary of the properties\<close>

subsection \<open>Error messages\<close>

text \<open>
  The join of a list of messages with a comma and a space between two of them, as
  \<^verbatim>\<open>Array.prototype.join(', ')\<close> gives it.
\<close>

fun join_messages :: "string list \<Rightarrow> string" where
  "join_messages [] = []"
| "join_messages [m] = m"
| "join_messages (m # m' # ms) = m @ '', '' @ join_messages (m' # ms)"

text \<open>
  What the specification says of \<^verbatim>\<open>getErrorsMessages\<close>: the join of the messages of the
  errors that match the type, an error without a \<^verbatim>\<open>validationType\<close> counting as "field",
  and null when no error matches.
\<close>

definition spec_getErrorsMessages :: "ValidationError list \<Rightarrow> string \<Rightarrow> string option" where
  "spec_getErrorsMessages errs t =
     (let matching = filter (error_matches t) errs
      in if matching = [] then None else Some (join_messages (map message matching)))"

subsection \<open>Formatting\<close>

text \<open>
  The specification's chain of formatters, applied in declared order: the first
  formatter to the input, the second to what the first gives, and so on.
\<close>

fun formatter_chain :: "('a jsval \<Rightarrow> 'a jsval) list \<Rightarrow> 'a jsval \<Rightarrow> 'a jsval" where
  "formatter_chain [] x = x"
| "formatter_chain (formatter # rest) x = formatter_chain rest (formatter x)"

text \<open>A string that contains only white space (the empty string is one).\<close>

definition whitespace_only :: "'a jsval \<Rightarrow> bool" where
  "whitespace_only x = (case x of JString str \<Rightarrow> list_all js_whitespace str | _ \<Rightarrow> False)"

text \<open>The operations that change the value: \<^verbatim>\<open>setValue\<close>, and \<^verbatim>\<open>onChange\<close> which calls it.\<close>

definition value_changing :: "'a operation \<Rightarrow> bool" where
  "value_changing operation =
     (case operation of SetValue v \<Rightarrow> True | OnChange e \<Rightarrow> True | _ \<Rightarrow> False)"

subsection \<open>Validation types\<close>

text \<open>
  The validation type a call of \<^verbatim>\<open>validate\<close> addresses when it merges its result:
  the \<^verbatim>\<open>validationType\<close> it was given, "field" when it was given none.
\<close>

definition addressed_type :: "string option \<Rightarrow> string" where
  "addressed_type validationTypeArg =
     (case validationTypeArg of None \<Rightarrow> VALIDATION_TYPES_FIELD | Some t \<Rightarrow> t)"

subsection \<open>Validation runs\<close>

text \<open>
  A validation applies to a run when the run is not restricted to a validation type, or
  is restricted to the type of the validation: the negation of the second test of
  \<^verbatim>\<open>runValidation\<close>.
\<close>

definition applies :: "'a RunArgs \<Rightarrow> 'a ValidationConfig \<Rightarrow> bool" where
  "applies args validation \<longleftrightarrow>
     arg_validationTypeToValidate args = None \<or>
     arg_validationTypeToValidate args = Some (selected_type validation)"

text \<open>The failure a call of a validator gave, returned or thrown.\<close>

definition failure_of :: "outcome \<Rightarrow> ValidationError option" where
  "failure_of out = (case out of Returns r \<Rightarrow> r | Throws r \<Rightarrow> r)"

text \<open>
  The positions, counted from \<open>i\<close>, of the validations of a list that apply to a run, in
  declared order.
\<close>

definition applicable_positions :: "'a RunArgs \<Rightarrow> nat \<Rightarrow> 'a ValidationConfig list \<Rightarrow> nat list" where
  "applicable_positions args i vs =
     map fst (filter (\<lambda>(j, validation). applies args validation) (enumerate i vs))"

text \<open>
  The errors that a log of calls accounts for: one for each call that gave a failure, in
  the order of the calls, normalized with the validation at the position of the call.
\<close>

definition logged_failures ::
  "'a ValidationConfig list \<Rightarrow> (nat \<times> outcome) list \<Rightarrow> ValidationError list" where
  "logged_failures vs calls =
     concat (map (\<lambda>(i, out). case failure_of out of
                                 None \<Rightarrow> []
                               | Some e \<Rightarrow> [normalize_error (vs ! i) e]) calls)"

text \<open>
  A call after which the specification lets the run go on: the validator returned no
  failure, or it returned one and the \<^verbatim>\<open>exitOnFail\<close> of its validation is false.
\<close>

definition continues :: "'a ValidationConfig \<Rightarrow> outcome \<Rightarrow> bool" where
  "continues validation out =
     (case out of
        Returns None \<Rightarrow> True
      | Returns (Some e) \<Rightarrow> exitOnFail validation = Some False
      | Throws r \<Rightarrow> False)"

subsection \<open>Concrete inputs\<close>

text \<open>
  A stand-in for \<^verbatim>\<open>toInt\<close> on values whose opaque part is an integer: the number a
  string of decimal digits denotes.
\<close>

definition example_toInt :: "int jsval \<Rightarrow> int jsval" where
  "example_toInt v =
     (case v of
        JString str \<Rightarrow> JOther (foldl (\<lambda>n c. 10 * n + (of_char c - 48)) 0 str)
      | _ \<Rightarrow> v)"

definition example_config :: "int FieldConfig" where
  "example_config =
     \<lparr>config_defaultValue = None, config_type = None, config_validations = None,
      config_formatters = None, config_isValidationAsync = None,
      config_errorDisplayDelay = None, config_serializer = None, config_deSerializer = None\<rparr>"

definition example_error :: "string \<Rightarrow> property \<Rightarrow> ValidationError" where
  "example_error m t = \<lparr>message = m, validationType = t, extra = []\<rparr>"

definition example_state :: "ValidationError list \<Rightarrow> int FieldState" where
  "example_state errs =
     \<lparr>value = JString [], errors = errs, isPristine = True, isValidating = False,
      isUpdating = False, validateCounter = 0, debounceTimeout = None, form_store = Map.empty\<rparr>"

text \<open>
  A validator that requires a value that is not the empty string, a field that
  validates with it asynchronously, one that validates with it synchronously, and an
  argument of \<^verbatim>\<open>validate\<close> with a value and a validation type.
\<close>

definition example_required :: "int ValidationConfig" where
  "example_required =
     \<lparr>validator = (\<lambda>d. if data_value d = JString []
                         then Returns (Some (example_error ''Field is required'' Absent))
                         else Returns None),
      exitOnFail = None, validation_type = None, validation_message = None\<rparr>"

definition example_async_closure :: "int Closure" where
  "example_async_closure =
     useField_closure example_toInt 0 ''name''
       (example_config\<lparr>config_validations := Some [example_required],
                       config_isValidationAsync := Some True\<rparr>)"

definition example_data :: "string \<Rightarrow> string option \<Rightarrow> int ValidationData" where
  "example_data v t =
     \<lparr>data_formData_opt = None, data_value_opt = Some (JString v), data_validationType = t\<rparr>"

definition example_sync_closure :: "int Closure" where
  "example_sync_closure =
     useField_closure example_toInt 0 ''name''
       (example_config\<lparr>config_validations := Some [example_required]\<rparr>)"

text \<open>
  A validator that never fails, one that always returns a failure with a given message,
  one that always throws it, and the arguments of a run on the empty string.
\<close>

definition example_passing :: "int ValidationConfig" where
  "example_passing =
     \<lparr>validator = (\<lambda>d. Returns None), exitOnFail = None, validation_type = None,
      validation_message = None\<rparr>"

definition example_failing :: "string \<Rightarrow> bool option \<Rightarrow> int ValidationConfig" where
  "example_failing m x =
     \<lparr>validator = (\<lambda>d. Returns (Some (example_error m Absent))), exitOnFail = x,
      validation_type = None, validation_message = None\<rparr>"

definition example_throwing :: "string \<Rightarrow> bool option \<Rightarrow> int ValidationConfig" where
  "example_throwing m x =
     \<lparr>validator = (\<lambda>d. Throws (Some (example_error m Absent))), exitOnFail = x,
      validation_type = None, validation_message = None\<rparr>"

definition example_args :: "int RunArgs" where
  "example_args =
     \<lparr>arg_formData = Map.empty, arg_value = JString [], arg_validationTypeToValidate = None,
      arg_path = ''name''\<rparr>"

text \<open>The arguments of a run on a given string.\<close>

definition example_args_on :: "string \<Rightarrow> int RunArgs" where
  "example_args_on v =
     \<lparr>arg_formData = Map.empty, arg_value = JString v, arg_validationTypeToValidate = None,
      arg_path = ''name''\<rparr>"

section \<open>Properties\<close>

subsection \<open>Filtering and clearing errors\<close>

lemma FIELD_neq_ASYNC: "VALIDATION_TYPES_FIELD \<noteq> VALIDATION_TYPES_ASYNC"
  by (simp add: VALIDATION_TYPES_FIELD_def VALIDATION_TYPES_ASYNC_def)

lemma filterErrors_One:
  "filterErrors errs (Some (One t)) = filter (\<lambda>e. validationType e \<noteq> Present t) errs"
  by (simp add: filterErrors_def validationTypeToArray_def)

lemma filterErrors_None:
  "filterErrors errs None =
     filter (\<lambda>e. validationType e \<noteq> Present VALIDATION_TYPES_FIELD) errs"
  by (simp add: filterErrors_def validationTypeToArray_def)

lemma filterErrors_Many:
  "filterErrors errs (Some (Many ts)) =
     filter (\<lambda>e. \<forall>t\<in>set ts. validationType e \<noteq> Present t) errs"
  by (simp add: filterErrors_def validationTypeToArray_def list_all_iff)

lemma filterErrors_keeps_Absent:
  "filter (\<lambda>e. validationType e = Absent) (filterErrors errs a)
   = filter (\<lambda>e. validationType e = Absent) errs"
  unfolding filterErrors_def
  by (auto simp: list_all_iff intro: filter_cong)

text \<open>
  C6. \<^verbatim>\<open>clearErrors(t)\<close> removes exactly the errors whose \<^verbatim>\<open>validationType\<close> is \<open>t\<close>: the
  new list is the old one without them, in the old order; no error of type \<open>t\<close> is left;
  the errors of every other type are the same list as before; an omitted \<open>t\<close> is
  "field"; nothing else of the state changes. In particular \<^verbatim>\<open>clearErrors('async')\<close>
  leaves the errors tagged "field" as they were.
\<close>

theorem clearErrors_removes_exactly:
  "errors (clearErrors (Some (One t)) s) = filter (\<lambda>e. validationType e \<noteq> Present t) (errors s)
   \<and> filter (\<lambda>e. validationType e = Present t) (errors (clearErrors (Some (One t)) s)) = []
   \<and> filter (\<lambda>e. validationType e \<noteq> Present t) (errors (clearErrors (Some (One t)) s))
       = filter (\<lambda>e. validationType e \<noteq> Present t) (errors s)
   \<and> clearErrors None s = clearErrors (Some (One VALIDATION_TYPES_FIELD)) s
   \<and> clearErrors (Some (One t)) s = s\<lparr>errors := errors (clearErrors (Some (One t)) s)\<rparr>
   \<and> filter (\<lambda>e. validationType e = Present VALIDATION_TYPES_FIELD)
         (errors (clearErrors (Some (One VALIDATION_TYPES_ASYNC)) s))
       = filter (\<lambda>e. validationType e = Present VALIDATION_TYPES_FIELD) (errors s)"
proof -
  have e: "errors (clearErrors (Some (One u)) s)
           = filter (\<lambda>e. validationType e \<noteq> Present u) (errors s)" for u
    by (simp add: clearErrors_def filterErrors_One)
  have a: "filter (\<lambda>e. validationType e = Present t)
             (filter (\<lambda>e. validationType e \<noteq> Present t) (errors s)) = []"
    by (simp add: filter_empty_conv)
  have b: "filter (\<lambda>e. validationType e = Present VALIDATION_TYPES_FIELD)
             (filter (\<lambda>e. validationType e \<noteq> Present VALIDATION_TYPES_ASYNC) (errors s))
           = filter (\<lambda>e. validationType e = Present VALIDATION_TYPES_FIELD) (errors s)"
    using FIELD_neq_ASYNC by (auto intro: filter_cong)
  have c: "clearErrors None s = clearErrors (Some (One VALIDATION_TYPES_FIELD)) s"
    by (simp add: clearErrors_def)
  have d: "clearErrors (Some (One t)) s = s\<lparr>errors := errors (clearErrors (Some (One t)) s)\<rparr>"
    by (simp add: clearErrors_def)
  show ?thesis using e a b c d by simp
qed

subsection \<open>Error messages\<close>

lemma join_messages_Cons:
  "join_messages (m # ms) = (if ms = [] then m else m @ '', '' @ join_messages ms)"
  by (cases ms) simp_all

lemma foldl_messages_from:
  assumes "acc \<noteq> []"
  shows "foldl (\<lambda>messages error.
                  if error_matches t error
                  then (if messages \<noteq> [] then messages @ '', '' @ message error
                        else message error)
                  else messages) acc errs
         = join_messages (acc # map message (filter (error_matches t) errs))"
  using assms
proof (induction errs arbitrary: acc)
  case Nil
  then show ?case by simp
next
  case (Cons e errs)
  show ?case
  proof (cases "error_matches t e")
    case False
    then show ?thesis using Cons by simp
  next
    case True
    have ne: "acc @ '', '' @ message e \<noteq> []" using Cons.prems by simp
    show ?thesis
      using True Cons.prems Cons.IH[OF ne]
      by (simp add: join_messages_Cons)
  qed
qed

lemma foldl_messages_first:
  assumes "\<forall>e. find (error_matches t) errs = Some e \<longrightarrow> message e \<noteq> []"
  shows "foldl (\<lambda>messages error.
                  if error_matches t error
                  then (if messages \<noteq> [] then messages @ '', '' @ message error
                        else message error)
                  else messages) [] errs
         = join_messages (map message (filter (error_matches t) errs))"
  using assms
proof (induction errs)
  case Nil
  then show ?case by simp
next
  case (Cons e errs)
  show ?case
  proof (cases "error_matches t e")
    case False
    then show ?thesis using Cons by simp
  next
    case True
    then have "message e \<noteq> []" using Cons.prems by simp
    then show ?thesis using True foldl_messages_from[of "message e" t errs] by simp
  qed
qed

lemma join_messages_first_nonempty:
  "ms \<noteq> [] \<Longrightarrow> hd ms \<noteq> [] \<Longrightarrow> join_messages ms \<noteq> []"
  by (cases ms) (simp_all add: join_messages_Cons)

lemma find_filter_hd:
  "filter P xs \<noteq> [] \<Longrightarrow> find P xs = Some (hd (filter P xs))"
  by (induction xs) auto

text \<open>
  C8 as the specification states it does not hold: with two "field" errors, the first
  with an empty message and the second with the message "b", the code returns "b",
  where the join of the two messages is ", b" (an empty accumulator is falsy, so the
  code starts over).
\<close>

theorem getErrorsMessages_join_counterexample:
  "getErrorsMessages
     (example_state [example_error [] (Present VALIDATION_TYPES_FIELD),
                     example_error ''b'' (Present VALIDATION_TYPES_FIELD)]) None
     = Some ''b''
   \<and> spec_getErrorsMessages
       [example_error [] (Present VALIDATION_TYPES_FIELD),
        example_error ''b'' (Present VALIDATION_TYPES_FIELD)] VALIDATION_TYPES_FIELD
     = Some '', b''"
  by (simp add: getErrorsMessages_def spec_getErrorsMessages_def example_state_def
      example_error_def error_matches_def)

text \<open>
  C8, amended. When the first current error that matches the type \<open>t\<close> (an omitted \<open>t\<close>
  is "field"; an error without a \<^verbatim>\<open>validationType\<close> property matches "field") has a
  message that is not empty, or no error matches, \<^verbatim>\<open>getErrorsMessages(t)\<close> returns the
  messages of all the matching errors joined with ", " in the order of the list, and
  null when no error matches.
\<close>

theorem getErrorsMessages_joins:
  assumes "\<forall>e. find (error_matches (case a of None \<Rightarrow> VALIDATION_TYPES_FIELD | Some t \<Rightarrow> t))
                  (errors s) = Some e \<longrightarrow> message e \<noteq> []"
  shows "getErrorsMessages s a =
         spec_getErrorsMessages (errors s)
           (case a of None \<Rightarrow> VALIDATION_TYPES_FIELD | Some t \<Rightarrow> t)"
proof -
  let ?t = "case a of None \<Rightarrow> VALIDATION_TYPES_FIELD | Some t \<Rightarrow> t"
  let ?m = "filter (error_matches ?t) (errors s)"
  have j: "join_messages (map message ?m) \<noteq> []" if "?m \<noteq> []"
  proof -
    have "message (hd ?m) \<noteq> []" using assms find_filter_hd[OF that] by simp
    then show ?thesis
      using that join_messages_first_nonempty[of "map message ?m"] by (simp add: hd_map)
  qed
  show ?thesis
    unfolding getErrorsMessages_def spec_getErrorsMessages_def Let_def
    using foldl_messages_first[OF assms] j by auto
qed

theorem getErrorsMessages_joins_witness:
  "getErrorsMessages
     (example_state [example_error ''a'' Absent,
                     example_error ''x'' (Present VALIDATION_TYPES_ASYNC),
                     example_error [] (Present VALIDATION_TYPES_FIELD),
                     example_error ''c'' (Present VALIDATION_TYPES_FIELD)]) None
     = Some ''a, , c''
   \<and> getErrorsMessages
       (example_state [example_error ''a'' Absent,
                       example_error ''x'' (Present VALIDATION_TYPES_ASYNC),
                       example_error [] (Present VALIDATION_TYPES_FIELD),
                       example_error ''c'' (Present VALIDATION_TYPES_FIELD)])
       (Some ''arrayItem'')
     = None"
proof -
  let ?s = "example_state [example_error ''a'' Absent,
                     example_error ''x'' (Present VALIDATION_TYPES_ASYNC),
                     example_error [] (Present VALIDATION_TYPES_FIELD),
                     example_error ''c'' (Present VALIDATION_TYPES_FIELD)]"
  have h1: "\<forall>e. find (error_matches (case None of None \<Rightarrow> VALIDATION_TYPES_FIELD | Some t \<Rightarrow> t))
                  (errors ?s) = Some e \<longrightarrow> message e \<noteq> []"
    by (simp add: example_state_def example_error_def error_matches_def)
  have h2: "\<forall>e. find (error_matches (case Some ''arrayItem'' of None \<Rightarrow> VALIDATION_TYPES_FIELD | Some t \<Rightarrow> t))
                  (errors ?s) = Some e \<longrightarrow> message e \<noteq> []"
    by (simp add: example_state_def example_error_def error_matches_def
        VALIDATION_TYPES_FIELD_def VALIDATION_TYPES_ASYNC_def)
  show ?thesis
    using getErrorsMessages_joins[OF h1] getErrorsMessages_joins[OF h2]
    by (simp add: spec_getErrorsMessages_def example_state_def example_error_def
        error_matches_def VALIDATION_TYPES_FIELD_def VALIDATION_TYPES_ASYNC_def)
qed

lemma error_matches_untagged:
  "error_matches VALIDATION_TYPES_FIELD (e\<lparr>validationType := Absent\<rparr>)"
  "error_matches VALIDATION_TYPES_FIELD (e\<lparr>validationType := Present VALIDATION_TYPES_FIELD\<rparr>)"
  by (simp_all add: error_matches_def)

text \<open>
  C10. An error without a \<^verbatim>\<open>validationType\<close> property is read as a "field" error and
  cleared as none. For \<^verbatim>\<open>getErrorsMessages()\<close> it makes no difference whether an error of
  the list has no \<^verbatim>\<open>validationType\<close> or has the type "field", and alone in the list its
  message is the result (null if the message is empty). \<^verbatim>\<open>clearErrors\<close>, whatever its
  argument, leaves the untagged errors of the list as they are: \<^verbatim>\<open>clearErrors()\<close> keeps
  an untagged error and removes the same error tagged "field".
\<close>

theorem untagged_error_asymmetry:
  "getErrorsMessages (s\<lparr>errors := xs @ e\<lparr>validationType := Absent\<rparr> # ys\<rparr>) None
     = getErrorsMessages
         (s\<lparr>errors := xs @ e\<lparr>validationType := Present VALIDATION_TYPES_FIELD\<rparr> # ys\<rparr>) None
   \<and> getErrorsMessages (s\<lparr>errors := [e\<lparr>validationType := Absent\<rparr>]\<rparr>) None
     = (if message e = [] then None else Some (message e))
   \<and> filter (\<lambda>x. validationType x = Absent) (errors (clearErrors a s))
     = filter (\<lambda>x. validationType x = Absent) (errors s)
   \<and> errors (clearErrors None (s\<lparr>errors := [e\<lparr>validationType := Absent\<rparr>]\<rparr>))
     = [e\<lparr>validationType := Absent\<rparr>]
   \<and> errors (clearErrors None
               (s\<lparr>errors := [e\<lparr>validationType := Present VALIDATION_TYPES_FIELD\<rparr>]\<rparr>)) = []"
proof -
  have 1: "getErrorsMessages (s\<lparr>errors := xs @ e\<lparr>validationType := Absent\<rparr> # ys\<rparr>) None
     = getErrorsMessages
         (s\<lparr>errors := xs @ e\<lparr>validationType := Present VALIDATION_TYPES_FIELD\<rparr> # ys\<rparr>) None"
    by (simp add: getErrorsMessages_def error_matches_untagged)
  have 2: "getErrorsMessages (s\<lparr>errors := [e\<lparr>validationType := Absent\<rparr>]\<rparr>) None
     = (if message e = [] then None else Some (message e))"
    by (simp add: getErrorsMessages_def error_matches_untagged)
  have 3: "filter (\<lambda>x. validationType x = Absent) (errors (clearErrors a s))
     = filter (\<lambda>x. validationType x = Absent) (errors s)"
    by (simp add: clearErrors_def filterErrors_keeps_Absent)
  have 4: "errors (clearErrors None (s\<lparr>errors := [e\<lparr>validationType := Absent\<rparr>]\<rparr>))
     = [e\<lparr>validationType := Absent\<rparr>]"
    by (simp add: clearErrors_def filterErrors_def validationTypeToArray_def)
  have 5: "errors (clearErrors None
               (s\<lparr>errors := [e\<lparr>validationType := Present VALIDATION_TYPES_FIELD\<rparr>]\<rparr>)) = []"
    by (simp add: clearErrors_def filterErrors_def validationTypeToArray_def)
  show ?thesis using 1 2 3 4 5 by simp
qed

subsection \<open>Changing the value\<close>

lemma dropWhile_all_iff:
  "(\<forall>x\<in>set (dropWhile P xs). P x) \<longleftrightarrow> (\<forall>x\<in>set xs. P x)"
proof
  assume all: "\<forall>x\<in>set (dropWhile P xs). P x"
  have "dropWhile P xs = []"
  proof (rule ccontr)
    assume ne: "dropWhile P xs \<noteq> []"
    then have "\<not> P (hd (dropWhile P xs))" by (rule hd_dropWhile)
    moreover have "hd (dropWhile P xs) \<in> set (dropWhile P xs)" using ne by simp
    ultimately show False using all by blast
  qed
  then show "\<forall>x\<in>set xs. P x" by (simp add: dropWhile_eq_Nil_conv)
next
  assume "\<forall>x\<in>set xs. P x"
  then show "\<forall>x\<in>set (dropWhile P xs). P x" by (blast dest: set_dropWhileD)
qed

lemma trim_empty_iff: "trim str = [] \<longleftrightarrow> list_all js_whitespace str"
  by (simp add: trim_def dropWhile_eq_Nil_conv dropWhile_all_iff list_all_iff)

lemma foldl_formatter_chain:
  "foldl (\<lambda>output formatter. formatter output) x fs = formatter_chain fs x"
  by (induction fs arbitrary: x) auto

lemma runFormatters_eq:
  "runFormatters h x = (if whitespace_only x then x else formatter_chain (formatters h) x)"
  by (cases x) (simp_all add: runFormatters_def whitespace_only_def trim_empty_iff foldl_formatter_chain)

lemma value_setValue: "value (setValue h x s) = runFormatters h x"
  by (simp add: setValue_def Let_def)


subsection \<open>The pristine flag\<close>

lemma isPristine_onValidationResult [simp]:
  "isPristine (snd (onValidationResult i t errs s)) = isPristine s"
  by (simp add: onValidationResult_def Let_def)

lemma isPristine_clearErrors [simp]: "isPristine (clearErrors a s) = isPristine s"
  by (simp add: clearErrors_def Let_def)

lemma snd_validate_sync:
  "snd (validate_sync h vd s) =
     snd (onValidationResult (Suc (validateCounter s)) (data_validationType vd)
            (validateSync (validations h) (validate_args h vd s))
            (s\<lparr>isValidating := True, validateCounter := Suc (validateCounter s)\<rparr>))"
  by (simp add: validate_sync_def validate_begin_def Let_def)

lemma snd_validate_async_call:
  "snd (validate_async_call h vd s) =
     clearErrors (Some (Many [VALIDATION_TYPES_FIELD, VALIDATION_TYPES_ASYNC]))
       (s\<lparr>isValidating := True, validateCounter := Suc (validateCounter s)\<rparr>)"
  by (simp add: validate_async_call_def validate_begin_def Let_def)

lemma snd_validate:
  "snd (validate h vd s) =
     (if isValidationAsync h then snd (validate_async_call h vd s)
      else snd (validate_sync h vd s))"
  by (simp add: validate_def split: prod.splits)

lemma isPristine_validate [simp]: "isPristine (snd (validate h vd s)) = isPristine s"
  by (simp add: snd_validate snd_validate_sync snd_validate_async_call)

lemma isPristine_setValue [simp]: "\<not> isPristine (setValue h x s)"
  by (simp add: setValue_def onValueChange_def Let_def)

lemma isPristine_step_value_changing:
  "value_changing operation \<Longrightarrow> \<not> isPristine (step h operation s)"
  by (cases operation) (simp_all add: value_changing_def onChange_def Let_def)

lemma isPristine_step_other:
  "\<not> value_changing operation \<Longrightarrow> isPristine (step h operation s) = isPristine s"
  by (cases operation)
     (simp_all add: value_changing_def validate_async_settle_def setErrors_def timer_expires_def)

lemma not_pristine_step: "\<not> isPristine s \<Longrightarrow> \<not> isPristine (step h operation s)"
  using isPristine_step_value_changing isPristine_step_other by blast

lemma not_pristine_steps: "\<not> isPristine s \<Longrightarrow> \<not> isPristine (steps h ops s)"
  by (induction ops arbitrary: s) (simp_all add: not_pristine_step)

lemma pristine_steps_other:
  "list_all (\<lambda>operation. \<not> value_changing operation) ops \<Longrightarrow>
   isPristine (steps h ops s) = isPristine s"
  by (induction ops arbitrary: s) (simp_all add: isPristine_step_other)

text \<open>
  C5. \<^verbatim>\<open>isPristine\<close> is true in the initial state and stays true as long as no operation
  changes the value; it is false after \<^verbatim>\<open>setValue\<close>, and once false it is false after
  every sequence of operations of the field.
\<close>

theorem pristine_one_way:
  "isPristine (useField_state h config store)
   \<and> \<not> isPristine (setValue h x s)
   \<and> \<not> isPristine (steps h ops (setValue h x s))
   \<and> (\<not> isPristine s \<longrightarrow> \<not> isPristine (steps h ops s))
   \<and> (list_all (\<lambda>operation. \<not> value_changing operation) ops \<longrightarrow>
        isPristine (steps h ops (useField_state h config store)))"
proof -
  have 1: "isPristine (useField_state h config store)"
    by (simp add: useField_state_def)
  have 3: "\<not> isPristine (steps h ops (setValue h x s))"
    by (rule not_pristine_steps) simp
  have 5: "list_all (\<lambda>operation. \<not> value_changing operation) ops \<Longrightarrow>
        isPristine (steps h ops (useField_state h config store))"
    using 1 by (simp add: pristine_steps_other)
  show ?thesis using 1 3 5 not_pristine_steps by auto
qed

theorem pristine_one_way_witness:
  "isPristine (steps (useField_closure example_toInt 0 ''name'' example_config)
       [Validate \<lparr>data_formData_opt = None, data_value_opt = None, data_validationType = None\<rparr>,
        ClearErrors None, TimerExpires]
       (useField_state (useField_closure example_toInt 0 ''name'' example_config)
          example_config Map.empty))
   \<and> \<not> isPristine (steps (useField_closure example_toInt 0 ''name'' example_config)
       [SetValue (JString ''a''),
        Validate \<lparr>data_formData_opt = None, data_value_opt = None, data_validationType = None\<rparr>,
        SetErrors [], SetValue (JString ''b''), ClearErrors None, TimerExpires]
       (useField_state (useField_closure example_toInt 0 ''name'' example_config)
          example_config Map.empty))"
proof -
  let ?h = "useField_closure example_toInt 0 ''name'' example_config"
  let ?v = "Validate \<lparr>data_formData_opt = None, data_value_opt = None, data_validationType = None\<rparr>"
  let ?s0 = "useField_state ?h example_config Map.empty"
  have a: "list_all (\<lambda>operation. \<not> value_changing operation) [?v, ClearErrors None, TimerExpires]"
    by (simp add: value_changing_def)
  have b: "\<not> isPristine (setValue ?h (JString ''a'') ?s0)"
    using pristine_one_way[of ?h example_config Map.empty "JString ''a''" ?s0 "[]"] by simp
  have c: "steps ?h [SetValue (JString ''a''), ?v, SetErrors [], SetValue (JString ''b''), ClearErrors None, TimerExpires] ?s0
         = steps ?h [?v, SetErrors [], SetValue (JString ''b''), ClearErrors None, TimerExpires] (setValue ?h (JString ''a'') ?s0)"
    by simp
  have w1: "isPristine (steps ?h [?v, ClearErrors None, TimerExpires] ?s0)"
    using a pristine_one_way[of ?h example_config Map.empty "JString ''a''" ?s0
        "[?v, ClearErrors None, TimerExpires]"]
    by blast
  have w2: "\<not> isPristine (steps ?h
        [?v, SetErrors [], SetValue (JString ''b''), ClearErrors None, TimerExpires]
        (setValue ?h (JString ''a'') ?s0))"
    using b pristine_one_way[of ?h example_config Map.empty "JString ''a''"
        "setValue ?h (JString ''a'') ?s0"
        "[?v, SetErrors [], SetValue (JString ''b''), ClearErrors None, TimerExpires]"]
    by blast
  show ?thesis using w1 w2 by (simp only: c simp_thms)
qed

subsection \<open>The default formatter\<close>

lemma formatters_closure:
  "formatters (useField_closure toInt d p config) =
     setDefaultFormatter toInt
       (case config_type config of None \<Rightarrow> FIELD_TYPES_TEXT | Some t \<Rightarrow> t)
       (case config_formatters config of None \<Rightarrow> [] | Some fs \<Rightarrow> fs)"
  by (simp add: useField_closure_def Let_def)

lemma TEXT_neq_NUMBER: "FIELD_TYPES_TEXT \<noteq> FIELD_TYPES_NUMBER"
  by (simp add: FIELD_TYPES_TEXT_def FIELD_TYPES_NUMBER_def)

text \<open>
  C9. A field of type "number" whose configuration has no formatter (none given, or an
  empty list) works with \<^verbatim>\<open>toInt\<close> as its only formatter: \<^verbatim>\<open>setValue(x)\<close> stores
  \<^verbatim>\<open>toInt(x)\<close>, unless \<open>x\<close> is a string of white space only, which is stored as it is. A
  field of another type with no formatter has none and stores \<open>x\<close>; a field with
  configured formatters keeps exactly those.
\<close>

theorem default_formatter_for_number:
  "(config_type config = Some FIELD_TYPES_NUMBER \<and>
      (config_formatters config = None \<or> config_formatters config = Some []) \<longrightarrow>
        formatters (useField_closure toInt d p config) = [toInt]
        \<and> value (setValue (useField_closure toInt d p config) x s)
            = (if whitespace_only x then x else toInt x))
   \<and> (config_type config \<noteq> Some FIELD_TYPES_NUMBER \<and>
      (config_formatters config = None \<or> config_formatters config = Some []) \<longrightarrow>
        formatters (useField_closure toInt d p config) = []
        \<and> value (setValue (useField_closure toInt d p config) x s) = x)
   \<and> (config_formatters config = Some (f # fs) \<longrightarrow>
        formatters (useField_closure toInt d p config) = f # fs)"
proof (intro conjI impI)
  assume a: "config_type config = Some FIELD_TYPES_NUMBER \<and>
      (config_formatters config = None \<or> config_formatters config = Some [])"
  then show f1: "formatters (useField_closure toInt d p config) = [toInt]"
    by (auto simp: formatters_closure setDefaultFormatter_def)
  show "value (setValue (useField_closure toInt d p config) x s)
            = (if whitespace_only x then x else toInt x)"
    by (simp add: value_setValue runFormatters_eq f1)
next
  assume a: "config_type config \<noteq> Some FIELD_TYPES_NUMBER \<and>
      (config_formatters config = None \<or> config_formatters config = Some [])"
  then show f2: "formatters (useField_closure toInt d p config) = []"
    using TEXT_neq_NUMBER
    by (auto simp: formatters_closure setDefaultFormatter_def split: option.splits)
  show "value (setValue (useField_closure toInt d p config) x s) = x"
    by (simp add: value_setValue runFormatters_eq f2)
next
  assume "config_formatters config = Some (f # fs)"
  then show "formatters (useField_closure toInt d p config) = f # fs"
    by (simp add: formatters_closure setDefaultFormatter_def)
qed

theorem default_formatter_for_number_witness:
  "formatters (useField_closure example_toInt 0 ''size''
       (example_config\<lparr>config_type := Some FIELD_TYPES_NUMBER\<rparr>)) = [example_toInt]
   \<and> value (setValue (useField_closure example_toInt 0 ''size''
               (example_config\<lparr>config_type := Some FIELD_TYPES_NUMBER\<rparr>))
            (JString ''42'') (example_state [])) = JOther 42
   \<and> value (setValue (useField_closure example_toInt 0 ''size''
               (example_config\<lparr>config_type := Some FIELD_TYPES_NUMBER\<rparr>))
            (JString '' '') (example_state [])) = JString '' ''
   \<and> value (setValue (useField_closure example_toInt 0 ''size'' example_config)
            (JString ''42'') (example_state [])) = JString ''42''
   \<and> formatters (useField_closure example_toInt 0 ''size''
        (example_config\<lparr>config_type := Some FIELD_TYPES_NUMBER,
                         config_formatters := Some [\<lambda>v. v]\<rparr>)) = [\<lambda>v. v]"
proof -
  let ?c1 = "example_config\<lparr>config_type := Some FIELD_TYPES_NUMBER\<rparr>"
  let ?c3 = "example_config\<lparr>config_type := Some FIELD_TYPES_NUMBER,
                         config_formatters := Some [\<lambda>v. v]\<rparr>"
  have h1: "config_type ?c1 = Some FIELD_TYPES_NUMBER \<and>
      (config_formatters ?c1 = None \<or> config_formatters ?c1 = Some [])"
    by (simp add: example_config_def)
  have h2: "config_type example_config \<noteq> Some FIELD_TYPES_NUMBER \<and>
      (config_formatters example_config = None \<or> config_formatters example_config = Some [])"
    by (simp add: example_config_def)
  have h3: "config_formatters ?c3 = Some [\<lambda>v. v]"
    by (simp add: example_config_def)
  have w1: "\<not> whitespace_only (JString ''42'' :: int jsval)"
    by (simp add: whitespace_only_def js_whitespace_def)
  have w2: "whitespace_only (JString '' '' :: int jsval)"
    by (simp add: whitespace_only_def js_whitespace_def)
  have t: "example_toInt (JString ''42'') = JOther 42"
    by (simp add: example_toInt_def)
  show ?thesis
    using h1 h2 h3 w1 w2 t
      default_formatter_for_number[of ?c1 example_toInt 0 "''size''" "JString ''42''" "example_state []"]
      default_formatter_for_number[of ?c1 example_toInt 0 "''size''" "JString '' ''" "example_state []"]
      default_formatter_for_number[of example_config example_toInt 0 "''size''" "JString ''42''" "example_state []"]
      default_formatter_for_number[of ?c3 example_toInt 0 "''size''" "JString ''42''" "example_state []" "\<lambda>v. v" "[]"]
    by simp
qed

subsection \<open>Overlapping calls of validate\<close>

lemma onValidationResult_stale:
  "validateIteration \<noteq> validateCounter s \<Longrightarrow>
   onValidationResult validateIteration t errs s =
     (\<lparr>isValid = (errs = []), response_errors = errs\<rparr>, s)"
  by (simp add: onValidationResult_def)

lemma onValidationResult_current:
  "onValidationResult (validateCounter s) t errs s =
     (\<lparr>isValid = (errs = []), response_errors = errs\<rparr>,
      s\<lparr>isValidating := False,
        errors := filter (\<lambda>e. validationType e \<noteq> Present (addressed_type t)) (errors s) @ errs\<rparr>)"
  by (cases t) (simp_all add: onValidationResult_def addressed_type_def filterErrors_One filterErrors_None)

lemma validateCounter_onValidationResult [simp]:
  "validateCounter (snd (onValidationResult i t errs s)) = validateCounter s"
  by (simp add: onValidationResult_def Let_def)

lemma validateCounter_clearErrors [simp]: "validateCounter (clearErrors a s) = validateCounter s"
  by (simp add: clearErrors_def Let_def)

lemma validateCounter_validate [simp]:
  "validateCounter (snd (validate h vd s)) = Suc (validateCounter s)"
  by (simp add: snd_validate snd_validate_sync snd_validate_async_call)

lemma validateCounter_setValue [simp]: "validateCounter (setValue h x s) = validateCounter s"
  by (simp add: setValue_def onValueChange_def Let_def)

lemma validateCounter_step: "validateCounter s \<le> validateCounter (step h operation s)"
  by (cases operation)
     (simp_all add: onChange_def Let_def validate_async_settle_def setErrors_def timer_expires_def)

lemma validateCounter_steps: "validateCounter s \<le> validateCounter (steps h ops s)"
proof (induction ops arbitrary: s)
  case Nil
  then show ?case by simp
next
  case (Cons operation rest)
  have "validateCounter s \<le> validateCounter (step h operation s)"
    by (rule validateCounter_step)
  also have "\<dots> \<le> validateCounter (steps h rest (step h operation s))"
    by (rule Cons.IH)
  finally show ?case by simp
qed

lemma validate_pending:
  assumes "validate h vd s = (Inr p, s1)"
  shows "isValidationAsync h"
    and "pending_iteration p = Suc (validateCounter s)"
    and "pending_validationType p = data_validationType vd"
    and "pending_errors p = validateAsync (validations h) (validate_args h vd s)"
    and "s1 = clearErrors (Some (Many [VALIDATION_TYPES_FIELD, VALIDATION_TYPES_ASYNC]))
               (s\<lparr>isValidating := True, validateCounter := Suc (validateCounter s)\<rparr>)"
  using assms
  by (auto simp: validate_def validate_async_call_def validate_begin_def Let_def
           split: if_splits prod.splits)

lemma validate_async_mode:
  "isValidationAsync h \<Longrightarrow>
   validate h vd s = (Inr (fst (validate_async_call h vd s)), snd (validate_async_call h vd s))"
  by (simp add: validate_def split: prod.splits)

lemma validate_sync_mode:
  "\<not> isValidationAsync h \<Longrightarrow>
   validate h vd s = (Inl (fst (validate_sync h vd s)), snd (validate_sync h vd s))"
  by (simp add: validate_def split: prod.splits)

lemma example_async_closure_simps:
  "isValidationAsync example_async_closure"
  "validations example_async_closure = [example_required]"
  "path example_async_closure = ''name''"
  by (simp_all add: example_async_closure_def useField_closure_def example_config_def Let_def)

lemma example_required_run:
  "validateAsync [example_required]
     \<lparr>arg_formData = fd, arg_value = JString [], arg_validationTypeToValidate = None, arg_path = p\<rparr>
   = [example_error ''Field is required'' (Present VALIDATION_TYPES_FIELD)]"
  "validateAsync [example_required]
     \<lparr>arg_formData = fd, arg_value = JString ''x'', arg_validationTypeToValidate = None, arg_path = p\<rparr>
   = []"
  by (simp_all add: validateAsync_def validateAsync_run_def run_start_def
      validation_step_async_def runValidation_async_def validator_data_def example_required_def
      example_error_def normalize_error_def getValidationErrorWithMessage_def error_tag_def
      selected_type_def Let_def)

lemma example_sync_closure_simps:
  "\<not> isValidationAsync example_sync_closure"
  "validations example_sync_closure = [example_required]"
  "path example_sync_closure = ''name''"
  by (simp_all add: example_sync_closure_def useField_closure_def example_config_def Let_def)

lemma example_required_run_sync:
  "validateSync [example_required]
     \<lparr>arg_formData = fd, arg_value = JString [], arg_validationTypeToValidate = None, arg_path = p\<rparr>
   = [example_error ''Field is required'' (Present VALIDATION_TYPES_FIELD)]"
  by (simp_all add: validateSync_def validateSync_run_def run_start_def
      validation_step_def runValidation_def validator_data_def example_required_def
      example_error_def normalize_error_def getValidationErrorWithMessage_def error_tag_def
      selected_type_def Let_def)

lemma example_required_run_typed:
  "validateAsync [example_required]
     \<lparr>arg_formData = fd, arg_value = v,
      arg_validationTypeToValidate = Some VALIDATION_TYPES_ASYNC, arg_path = p\<rparr>
   = []"
  by (simp add: validateAsync_def validateAsync_run_def run_start_def
      validation_step_async_def runValidation_async_def example_required_def
      selected_type_def FIELD_neq_ASYNC)

text \<open>
  C2. Let \<^verbatim>\<open>validate\<close> be called (A) and, after any operations but before the promise of
  A settles, called again (B). Whatever operations follow B, when the promise of A
  settles the state of the field is left as it is: the errors are not touched and \<^verbatim>\<open>isValidating\<close> is not
  cleared; the response of A is still \<open>{isValid, errors}\<close> of A's own run. The result of
  B, settling while B is the latest call, is merged into the errors and clears
  \<^verbatim>\<open>isValidating\<close>; in whichever order the two promises settle, the state is the one
  that B alone gives.
\<close>

theorem stale_validation_dropped:
  assumes A: "validate h vdA s = (Inr pA, s1)"
      and B: "validate h vdB (steps h between s1) = (Inr pB, s2)"
  shows "validate_async_settle pA (steps h ops s2) =
           (\<lparr>isValid = (pending_errors pA = []), response_errors = pending_errors pA\<rparr>,
            steps h ops s2)
         \<and> pending_errors pA = validateAsync (validations h) (validate_args h vdA s)
         \<and> fst (validate_async_settle pA s') =
             \<lparr>isValid = (pending_errors pA = []), response_errors = pending_errors pA\<rparr>
         \<and> isValidating s2
         \<and> validate_async_settle pB s2 =
           (\<lparr>isValid = (pending_errors pB = []), response_errors = pending_errors pB\<rparr>,
            s2\<lparr>isValidating := False,
               errors := filter (\<lambda>e. validationType e \<noteq>
                                     Present (addressed_type (data_validationType vdB)))
                           (errors s2) @ pending_errors pB\<rparr>)
         \<and> snd (validate_async_settle pB (snd (validate_async_settle pA s2)))
             = snd (validate_async_settle pB s2)
         \<and> snd (validate_async_settle pA (snd (validate_async_settle pB s2)))
             = snd (validate_async_settle pB s2)"
proof -
  note a = validate_pending[OF A]
  note b = validate_pending[OF B]
  have c1: "validateCounter s1 = Suc (validateCounter s)" using a(5) by simp
  have c2: "validateCounter s2 = Suc (validateCounter (steps h between s1))"
    using b(5) by simp
  have c3: "Suc (validateCounter s) < validateCounter s2"
    using validateCounter_steps[of s1 h between] c1 c2 by simp
  have later: "pending_iteration pA \<noteq> validateCounter (steps h ops s2)" for ops
    using validateCounter_steps[of s2 h ops] a(2) c3 by simp
  have 1: "validate_async_settle pA (steps h ops s2) =
           (\<lparr>isValid = (pending_errors pA = []), response_errors = pending_errors pA\<rparr>,
            steps h ops s2)" for ops
    unfolding validate_async_settle_def by (rule onValidationResult_stale[OF later])
  have 2: "fst (validate_async_settle pA s') =
             \<lparr>isValid = (pending_errors pA = []), response_errors = pending_errors pA\<rparr>"
    by (simp add: validate_async_settle_def onValidationResult_def Let_def)
  have 3: "isValidating s2" using b(5) by (simp add: clearErrors_def)
  have itB: "pending_iteration pB = validateCounter s2" using b(2) c2 by simp
  have 4: "validate_async_settle pB s2 =
           (\<lparr>isValid = (pending_errors pB = []), response_errors = pending_errors pB\<rparr>,
            s2\<lparr>isValidating := False,
               errors := filter (\<lambda>e. validationType e \<noteq>
                                     Present (addressed_type (data_validationType vdB)))
                           (errors s2) @ pending_errors pB\<rparr>)"
    unfolding validate_async_settle_def itB b(3) by (rule onValidationResult_current)
  have 5: "snd (validate_async_settle pA s2) = s2" using 1[of "[]"] by simp
  have 6: "snd (validate_async_settle pA (snd (validate_async_settle pB s2)))
             = snd (validate_async_settle pB s2)"
    using 1[of "[Settle pB]"] by simp
  show ?thesis using 1 a(4) 2 3 4 5 6 by simp
qed

theorem stale_validation_dropped_witness:
  "\<exists>pA s1 pB s2.
     validate example_async_closure (example_data [] None) (example_state []) = (Inr pA, s1)
   \<and> validate example_async_closure (example_data ''x'' None) s1 = (Inr pB, s2)
   \<and> validate_async_settle pA (steps example_async_closure [Settle pB] s2) =
        (\<lparr>isValid = False,
          response_errors = [example_error ''Field is required'' (Present VALIDATION_TYPES_FIELD)]\<rparr>,
         steps example_async_closure [Settle pB] s2)
   \<and> errors (steps example_async_closure [Settle pB] s2) = []
   \<and> isValidating s2
   \<and> \<not> isValidating (steps example_async_closure [Settle pB] s2)"
proof -
  let ?h = example_async_closure
  obtain pA s1 where A: "validate ?h (example_data [] None) (example_state []) = (Inr pA, s1)"
    using validate_async_mode[OF example_async_closure_simps(1)] by blast
  obtain pB s2 where B: "validate ?h (example_data ''x'' None) s1 = (Inr pB, s2)"
    using validate_async_mode[OF example_async_closure_simps(1)] by blast
  have B': "validate ?h (example_data ''x'' None) (steps ?h [] s1) = (Inr pB, s2)"
    using B by simp
  note t = stale_validation_dropped[OF A B', of "[Settle pB]" s2]
  note t1 = t[THEN conjunct1]
  note t3 = t[THEN conjunct2, THEN conjunct2, THEN conjunct2, THEN conjunct1]
  note t4 = t[THEN conjunct2, THEN conjunct2, THEN conjunct2, THEN conjunct2, THEN conjunct1]
  note a = validate_pending[OF A]
  note b = validate_pending[OF B]
  have ea: "pending_errors pA = [example_error ''Field is required'' (Present VALIDATION_TYPES_FIELD)]"
    using a(4) by (simp add: example_async_closure_simps validate_args_def example_data_def
        example_required_run)
  have eb: "pending_errors pB = []"
    using b(4) by (simp add: example_async_closure_simps validate_args_def example_data_def
        example_required_run)
  have e1: "errors s1 = []"
    using a(5) by (simp add: clearErrors_def filterErrors_def example_state_def)
  have e2: "errors s2 = []"
    using b(5) e1 by (simp add: clearErrors_def filterErrors_def)
  have st: "steps ?h [Settle pB] s2 = s2\<lparr>isValidating := False, errors := []\<rparr>"
    using t4 e2 eb by simp
  have 3: "validate_async_settle pA (steps ?h [Settle pB] s2) =
        (\<lparr>isValid = False,
          response_errors = [example_error ''Field is required'' (Present VALIDATION_TYPES_FIELD)]\<rparr>,
         steps ?h [Settle pB] s2)"
    using t1[unfolded ea] by simp
  have 4: "errors (steps ?h [Settle pB] s2) = []" using st by simp
  have 5: "isValidating s2" using t3 .
  have 6: "\<not> isValidating (steps ?h [Settle pB] s2)" using st by simp
  show ?thesis using A B 3 4 5 6 by blast
qed

subsection \<open>What a validation run does to the errors\<close>

lemma errors_validate_async_call:
  "errors (snd (validate_async_call h vd s)) =
     filter (\<lambda>e. validationType e \<noteq> Present VALIDATION_TYPES_FIELD \<and>
                 validationType e \<noteq> Present VALIDATION_TYPES_ASYNC) (errors s)"
  by (simp add: snd_validate_async_call clearErrors_def filterErrors_Many)

lemma errors_validate_sync:
  "errors (snd (validate_sync h vd s)) =
     filter (\<lambda>e. validationType e \<noteq> Present (addressed_type (data_validationType vd))) (errors s)
     @ validateSync (validations h) (validate_args h vd s)"
proof -
  let ?s2 = "s\<lparr>isValidating := True, validateCounter := Suc (validateCounter s)\<rparr>"
  have "onValidationResult (Suc (validateCounter s)) (data_validationType vd)
          (validateSync (validations h) (validate_args h vd s)) ?s2
        = onValidationResult (validateCounter ?s2) (data_validationType vd)
          (validateSync (validations h) (validate_args h vd s)) ?s2"
    by simp
  then show ?thesis
    unfolding snd_validate_sync
    by (simp only: onValidationResult_current) simp
qed

text \<open>
  C7 as stated does not hold for the asynchronous mode: a field in asynchronous mode
  holds one error of type "field"; \<^verbatim>\<open>validate\<close> restricted to the type "async" removes
  it as soon as it is called (\<^verbatim>\<open>validateAsync\<close> starts with
  \<^verbatim>\<open>clearErrors([FIELD, ASYNC])\<close>), and it is still gone when the run has settled.
\<close>

theorem async_run_clears_field_errors_counterexample:
  "errors (snd (validate example_async_closure
                  (example_data ''x'' (Some VALIDATION_TYPES_ASYNC))
                  (example_state [example_error ''Field is required''
                                    (Present VALIDATION_TYPES_FIELD)]))) = []
   \<and> errors (snd (validate_async_settle
                    (fst (validate_async_call example_async_closure
                            (example_data ''x'' (Some VALIDATION_TYPES_ASYNC))
                            (example_state [example_error ''Field is required''
                                              (Present VALIDATION_TYPES_FIELD)])))
                    (snd (validate example_async_closure
                            (example_data ''x'' (Some VALIDATION_TYPES_ASYNC))
                            (example_state [example_error ''Field is required''
                                              (Present VALIDATION_TYPES_FIELD)]))))) = []"
  by (simp add: snd_validate example_async_closure_simps snd_validate_async_call
      validate_async_call_def validate_begin_def validate_async_settle_def
      onValidationResult_def clearErrors_def filterErrors_def validationTypeToArray_def
      example_state_def example_error_def example_data_def validate_args_def
      example_required_run_typed Let_def FIELD_neq_ASYNC)

text \<open>
  C7, amended. In synchronous mode \<^verbatim>\<open>validate\<close> removes from the errors those of the
  type it addresses (the \<^verbatim>\<open>validationType\<close> given, "field" if none) and appends the
  errors of the run; every other error stays, in its place. In asynchronous mode the
  call first removes the errors of types "field" and "async", whatever type the run is
  restricted to, and the settled run (no other call of \<^verbatim>\<open>validate\<close> in between) then
  removes the errors of the addressed type and appends its own; the errors of every type
  other than "field", "async" and the addressed one stay.
\<close>

theorem validate_error_update:
  "(\<not> isValidationAsync h \<longrightarrow>
      errors (snd (validate h vd s)) =
        filter (\<lambda>e. validationType e \<noteq> Present (addressed_type (data_validationType vd)))
          (errors s)
        @ validateSync (validations h) (validate_args h vd s))
   \<and> (isValidationAsync h \<longrightarrow>
      errors (snd (validate h vd s)) =
        filter (\<lambda>e. validationType e \<noteq> Present VALIDATION_TYPES_FIELD \<and>
                    validationType e \<noteq> Present VALIDATION_TYPES_ASYNC) (errors s)
      \<and> errors (snd (validate_async_settle (fst (validate_async_call h vd s))
                        (snd (validate h vd s)))) =
        filter (\<lambda>e. validationType e \<noteq> Present VALIDATION_TYPES_FIELD \<and>
                    validationType e \<noteq> Present VALIDATION_TYPES_ASYNC \<and>
                    validationType e \<noteq> Present (addressed_type (data_validationType vd)))
          (errors s)
        @ validateAsync (validations h) (validate_args h vd s))"
proof (intro conjI impI)
  assume "\<not> isValidationAsync h"
  then show "errors (snd (validate h vd s)) =
        filter (\<lambda>e. validationType e \<noteq> Present (addressed_type (data_validationType vd)))
          (errors s)
        @ validateSync (validations h) (validate_args h vd s)"
    by (simp add: snd_validate errors_validate_sync)
next
  assume as: "isValidationAsync h"
  then show "errors (snd (validate h vd s)) =
        filter (\<lambda>e. validationType e \<noteq> Present VALIDATION_TYPES_FIELD \<and>
                    validationType e \<noteq> Present VALIDATION_TYPES_ASYNC) (errors s)"
    by (simp add: snd_validate errors_validate_async_call)
next
  assume as: "isValidationAsync h"
  let ?p = "fst (validate_async_call h vd s)"
  let ?s1 = "snd (validate h vd s)"
  have v: "validate h vd s = (Inr ?p, ?s1)"
    using validate_async_mode[OF as] by simp
  note a = validate_pending[OF v]
  have it: "pending_iteration ?p = validateCounter ?s1" using a(2) by simp
  have e1: "errors ?s1 = filter (\<lambda>e. validationType e \<noteq> Present VALIDATION_TYPES_FIELD \<and>
                    validationType e \<noteq> Present VALIDATION_TYPES_ASYNC) (errors s)"
    using as by (simp add: snd_validate errors_validate_async_call)
  have "validate_async_settle ?p ?s1 =
          onValidationResult (validateCounter ?s1) (data_validationType vd)
            (validateAsync (validations h) (validate_args h vd s)) ?s1"
    unfolding validate_async_settle_def it a(3) a(4) ..
  then have "errors (snd (validate_async_settle ?p ?s1)) =
       filter (\<lambda>e. validationType e \<noteq> Present (addressed_type (data_validationType vd)))
         (errors ?s1) @ validateAsync (validations h) (validate_args h vd s)"
    by (simp only: onValidationResult_current) simp
  then show "errors (snd (validate_async_settle ?p ?s1)) =
        filter (\<lambda>e. validationType e \<noteq> Present VALIDATION_TYPES_FIELD \<and>
                    validationType e \<noteq> Present VALIDATION_TYPES_ASYNC \<and>
                    validationType e \<noteq> Present (addressed_type (data_validationType vd)))
          (errors s)
        @ validateAsync (validations h) (validate_args h vd s)"
    unfolding e1 by (simp add: conj_assoc)
qed

theorem validate_error_update_witness:
  "errors (snd (validate example_sync_closure (example_data [] None)
                  (example_state [example_error ''taken'' (Present VALIDATION_TYPES_ASYNC),
                                  example_error ''old'' (Present VALIDATION_TYPES_FIELD)])))
     = [example_error ''taken'' (Present VALIDATION_TYPES_ASYNC),
        example_error ''Field is required'' (Present VALIDATION_TYPES_FIELD)]
   \<and> errors (snd (validate_async_settle
                    (fst (validate_async_call example_async_closure (example_data [] None)
                            (example_state [example_error ''item'' (Present ''arrayItem''),
                                            example_error ''old'' (Present VALIDATION_TYPES_FIELD)])))
                    (snd (validate example_async_closure (example_data [] None)
                            (example_state [example_error ''item'' (Present ''arrayItem''),
                                            example_error ''old'' (Present VALIDATION_TYPES_FIELD)])))))
     = [example_error ''item'' (Present ''arrayItem''),
        example_error ''Field is required'' (Present VALIDATION_TYPES_FIELD)]"
proof -
  let ?s1 = "example_state [example_error ''taken'' (Present VALIDATION_TYPES_ASYNC),
                                  example_error ''old'' (Present VALIDATION_TYPES_FIELD)]"
  let ?s2 = "example_state [example_error ''item'' (Present ''arrayItem''),
                                            example_error ''old'' (Present VALIDATION_TYPES_FIELD)]"
  have n: "''arrayItem'' \<noteq> VALIDATION_TYPES_FIELD" "''arrayItem'' \<noteq> VALIDATION_TYPES_ASYNC"
    by (simp_all add: VALIDATION_TYPES_FIELD_def VALIDATION_TYPES_ASYNC_def)
  have 1: "errors (snd (validate example_sync_closure (example_data [] None) ?s1))
     = [example_error ''taken'' (Present VALIDATION_TYPES_ASYNC),
        example_error ''Field is required'' (Present VALIDATION_TYPES_FIELD)]"
    using validate_error_update[of example_sync_closure "example_data [] None" ?s1]
      example_sync_closure_simps(1) FIELD_neq_ASYNC
    by (simp add: example_sync_closure_simps(2,3) validate_args_def example_data_def
        example_state_def example_error_def example_required_run_sync addressed_type_def)
  have 2: "errors (snd (validate_async_settle
                    (fst (validate_async_call example_async_closure (example_data [] None) ?s2))
                    (snd (validate example_async_closure (example_data [] None) ?s2))))
     = [example_error ''item'' (Present ''arrayItem''),
        example_error ''Field is required'' (Present VALIDATION_TYPES_FIELD)]"
    using validate_error_update[of example_async_closure "example_data [] None" ?s2]
      example_async_closure_simps(1) n
    by (simp add: example_async_closure_simps(2,3) validate_args_def example_data_def
        example_state_def example_error_def example_required_run addressed_type_def)
  show ?thesis using 1 2 by (rule conjI)
qed

subsection \<open>The run of the validations\<close>

lemma runValidation_async_eq: "runValidation_async = runValidation"
  by (intro ext) (simp add: runValidation_async_def runValidation_def)

lemma validation_step_async_eq: "validation_step_async = validation_step"
  by (intro ext) (simp add: validation_step_async_def validation_step_def runValidation_async_eq)

lemma reduce_validation_eq: "reduce_validation args i vs st = forEach_validation args i vs st"
  by (induction vs arbitrary: i st) (simp_all add: validation_step_async_eq)

lemma validateAsync_run_eq: "validateAsync_run vs args = validateSync_run vs args"
  by (simp add: validateAsync_run_def validateSync_run_def reduce_validation_eq)

lemma validateAsync_eq: "validateAsync vs args = validateSync vs args"
  by (simp add: validateAsync_def validateSync_def validateAsync_run_eq)

lemma step_not_run:
  "skip st \<or> \<not> applies args v \<Longrightarrow> validation_step args i v st = st"
  by (auto simp: validation_step_def runValidation_def applies_def)

lemma step_run:
  assumes "\<not> skip st" "applies args v"
  shows "validation_step args i v st =
     (let out = validator v (validator_data args st) in
      \<lparr>validationErrors = validationErrors st @
          (case failure_of out of None \<Rightarrow> [] | Some e \<Rightarrow> [normalize_error v e]),
       skip = \<not> continues v out,
       invoked = invoked st @ [(i, out)]\<rparr>)"
  using assms
  by (cases st)
     (auto simp: validation_step_def runValidation_def applies_def Let_def failure_of_def
        continues_def split: outcome.splits option.splits)

lemma forEach_skip: "skip st \<Longrightarrow> forEach_validation args i vs st = st"
  by (induction vs arbitrary: i) (simp_all add: step_not_run)

lemma forEach_append:
  "forEach_validation args i (xs @ ys) st =
     forEach_validation args (i + length xs) ys (forEach_validation args i xs st)"
  by (induction xs arbitrary: i st) simp_all

lemma validator_data_invoked [simp]:
  "validator_data args (st\<lparr>invoked := l\<rparr>) = validator_data args st"
  by (simp add: validator_data_def)

lemma step_logged:
  assumes "all_vs ! i = v"
      and "validationErrors st = logged_failures all_vs (invoked st)"
  shows "validationErrors (validation_step args i v st) =
           logged_failures all_vs (invoked (validation_step args i v st))"
proof (cases "skip st \<or> \<not> applies args v")
  case True
  then show ?thesis using assms by (simp add: step_not_run)
next
  case False
  then show ?thesis
    using step_run[of st args v i] assms
    by (simp add: Let_def logged_failures_def split: option.splits)
qed

lemma forEach_logged:
  assumes "\<forall>k<length vs. all_vs ! (i + k) = vs ! k"
      and "validationErrors st = logged_failures all_vs (invoked st)"
  shows "validationErrors (forEach_validation args i vs st) =
           logged_failures all_vs (invoked (forEach_validation args i vs st))"
  using assms
proof (induction vs arbitrary: i st)
  case Nil
  then show ?case by simp
next
  case (Cons v vs)
  have h: "all_vs ! i = v" using Cons.prems(1) by fastforce
  have t: "\<forall>k<length vs. all_vs ! (Suc i + k) = vs ! k"
  proof (intro allI impI)
    fix k assume "k < length vs"
    then have "all_vs ! (i + Suc k) = (v # vs) ! Suc k" using Cons.prems(1) by (metis length_Cons Suc_less_eq)
    then show "all_vs ! (Suc i + k) = vs ! k" by simp
  qed
  show ?case
    using Cons.IH[OF t step_logged[OF h Cons.prems(2)]] by simp
qed

lemma run_logged:
  "validationErrors (validateSync_run vs args) =
     logged_failures vs (invoked (validateSync_run vs args))"
  unfolding validateSync_run_def
  by (rule forEach_logged) (simp_all add: run_start_def logged_failures_def)

lemma applicable_positions_all:
  "arg_validationTypeToValidate args = None \<Longrightarrow>
   applicable_positions args i vs = [i..<i + length vs]"
  by (simp add: applicable_positions_def applies_def map_fst_enumerate)

lemma run_halts_after_stop:
  assumes "\<not> skip (validateSync_run pre args)"
      and "applies args v"
      and "\<not> continues v (validator v (validator_data args (validateSync_run pre args)))"
  shows "validateSync_run (pre @ v # post) args =
           \<lparr>validationErrors = validationErrors (validateSync_run pre args) @
              (case failure_of (validator v (validator_data args (validateSync_run pre args))) of
                 None \<Rightarrow> [] | Some e \<Rightarrow> [normalize_error v e]),
            skip = True,
            invoked = invoked (validateSync_run pre args) @
              [(length pre, validator v (validator_data args (validateSync_run pre args)))]\<rparr>"
proof -
  let ?st = "forEach_validation args 0 pre run_start"
  have st: "validateSync_run pre args = ?st" by (simp add: validateSync_run_def)
  have s: "skip (validation_step args (length pre) v ?st)"
    using step_run[of ?st args v "length pre"] assms by (simp add: st Let_def)
  have "validateSync_run (pre @ v # post) args = validation_step args (length pre) v ?st"
    by (simp add: validateSync_run_def forEach_append forEach_skip[OF s])
  then show ?thesis
    using step_run[of ?st args v "length pre"] assms by (simp add: st Let_def)
qed

lemma forEach_runs_all:
  assumes "\<not> skip st"
      and "\<forall>k<length vs. all_vs ! (i + k) = vs ! k"
  shows "(\<not> skip (forEach_validation args i vs st)
          \<and> map fst (invoked (forEach_validation args i vs st)) =
              map fst (invoked st) @ applicable_positions args i vs)
         \<or> (\<exists>c\<in>set (invoked (forEach_validation args i vs st)).
               \<not> continues (all_vs ! fst c) (snd c))"
  using assms
proof (induction vs arbitrary: i st)
  case Nil
  then show ?case by (simp add: applicable_positions_def)
next
  case (Cons v vs)
  have h: "all_vs ! i = v" using Cons.prems(2) by fastforce
  have t: "\<forall>k<length vs. all_vs ! (Suc i + k) = vs ! k"
  proof (intro allI impI)
    fix k assume "k < length vs"
    then have "all_vs ! (i + Suc k) = (v # vs) ! Suc k"
      using Cons.prems(2) by (metis length_Cons Suc_less_eq)
    then show "all_vs ! (Suc i + k) = vs ! k" by simp
  qed
  show ?case
  proof (cases "applies args v")
    case False
    then have "validation_step args i v st = st" by (simp add: step_not_run)
    then show ?thesis
      using Cons.IH[OF Cons.prems(1) t] False by (simp add: applicable_positions_def)
  next
    case True
    let ?out = "validator v (validator_data args st)"
    let ?st1 = "validation_step args i v st"
    have s: "skip ?st1 = (\<not> continues v ?out)" "invoked ?st1 = invoked st @ [(i, ?out)]"
      using step_run[OF Cons.prems(1) True, of i] by (simp_all add: Let_def)
    show ?thesis
    proof (cases "continues v ?out")
      case True
      then have ns: "\<not> skip ?st1" using s by simp
      show ?thesis
        using Cons.IH[OF ns t] s \<open>applies args v\<close> by (simp add: applicable_positions_def)
    next
      case False
      then have sk: "skip ?st1" using s by simp
      have "forEach_validation args i (v # vs) st = ?st1"
        by (simp add: forEach_skip[OF sk])
      moreover have "(i, ?out) \<in> set (invoked ?st1)" using s by simp
      ultimately show ?thesis using False h by force
    qed
  qed
qed

lemma run_all_called:
  assumes "\<forall>c\<in>set (invoked (validateSync_run vs args)). continues (vs ! fst c) (snd c)"
  shows "\<not> skip (validateSync_run vs args)
         \<and> map fst (invoked (validateSync_run vs args)) = applicable_positions args 0 vs"
proof -
  have ns: "\<not> skip run_start" by (simp add: run_start_def)
  have al: "\<forall>k<length vs. vs ! (0 + k) = vs ! k" by simp
  show ?thesis
    using forEach_runs_all[OF ns al, of args] assms
    by (auto simp: validateSync_run_def run_start_def)
qed

text \<open>
  C1. In a run of \<^verbatim>\<open>validateSync\<close> or \<^verbatim>\<open>validateAsync\<close>: when the run has not been
  stopped before a validation \<open>v\<close>, \<open>v\<close> applies, its validator returns a failure \<open>e\<close> and
  its \<^verbatim>\<open>exitOnFail\<close> is not false, then the run ends there. Its state is that of the run
  of the validations before \<open>v\<close>, with the normalized failure appended to the errors and
  the call of \<open>v\<close> appended to the log of calls: no validator after \<open>v\<close> is called, and
  if no validator before \<open>v\<close> failed, that failure is the only error. When every call
  made in a run returned no failure, or returned one under \<^verbatim>\<open>exitOnFail: false\<close>, the run
  is never stopped and the validators of all applicable validations are called, in
  declared order (all validations, when the run is not restricted to a type). In every
  run the error list holds the failures of the calls made, in the order of the calls.
  The asynchronous run is the same as the synchronous one.
\<close>

theorem exitOnFail_policy:
  "(\<not> skip (validateSync_run pre args)
     \<and> applies args v
     \<and> validator v (validator_data args (validateSync_run pre args)) = Returns (Some e)
     \<and> exitOnFail v \<noteq> Some False
     \<longrightarrow> validateSync_run (pre @ v # post) args =
           \<lparr>validationErrors = validateSync pre args @ [normalize_error v e], skip = True,
            invoked = invoked (validateSync_run pre args) @ [(length pre, Returns (Some e))]\<rparr>
       \<and> validateSync (pre @ v # post) args = validateSync pre args @ [normalize_error v e]
       \<and> validateAsync (pre @ v # post) args = validateAsync pre args @ [normalize_error v e]
       \<and> (validateSync pre args = [] \<longrightarrow>
             validateSync (pre @ v # post) args = [normalize_error v e]
             \<and> validateAsync (pre @ v # post) args = [normalize_error v e]))
   \<and> ((\<forall>c\<in>set (invoked (validateSync_run vs args)). continues (vs ! fst c) (snd c))
     \<longrightarrow> \<not> skip (validateSync_run vs args)
       \<and> map fst (invoked (validateSync_run vs args)) = applicable_positions args 0 vs
       \<and> (arg_validationTypeToValidate args = None \<longrightarrow>
            map fst (invoked (validateSync_run vs args)) = [0..<length vs]))
   \<and> validateSync vs args = logged_failures vs (invoked (validateSync_run vs args))
   \<and> validateAsync_run vs args = validateSync_run vs args
   \<and> validateAsync vs args = validateSync vs args"
proof (intro conjI impI)
  assume h: "\<not> skip (validateSync_run pre args)
     \<and> applies args v
     \<and> validator v (validator_data args (validateSync_run pre args)) = Returns (Some e)
     \<and> exitOnFail v \<noteq> Some False"
  then have nc: "\<not> continues v (validator v (validator_data args (validateSync_run pre args)))"
    by (simp add: continues_def)
  have r: "validateSync_run (pre @ v # post) args =
           \<lparr>validationErrors = validateSync pre args @ [normalize_error v e], skip = True,
            invoked = invoked (validateSync_run pre args) @ [(length pre, Returns (Some e))]\<rparr>"
    using run_halts_after_stop[of pre args v post] h nc
    by (simp add: failure_of_def validateSync_def)
  show "validateSync_run (pre @ v # post) args =
           \<lparr>validationErrors = validateSync pre args @ [normalize_error v e], skip = True,
            invoked = invoked (validateSync_run pre args) @ [(length pre, Returns (Some e))]\<rparr>"
    by (rule r)
  show s: "validateSync (pre @ v # post) args = validateSync pre args @ [normalize_error v e]"
    using r by (simp add: validateSync_def)
  show a: "validateAsync (pre @ v # post) args = validateAsync pre args @ [normalize_error v e]"
    using s by (simp only: validateAsync_eq)
  show "validateSync (pre @ v # post) args = [normalize_error v e]"
    if "validateSync pre args = []"
    using s that by simp
  show "validateAsync (pre @ v # post) args = [normalize_error v e]"
    if "validateSync pre args = []"
    using a that by (simp add: validateAsync_eq)
next
  assume h: "\<forall>c\<in>set (invoked (validateSync_run vs args)). continues (vs ! fst c) (snd c)"
  note c = run_all_called[OF h]
  show "\<not> skip (validateSync_run vs args)" using c by simp
  show "map fst (invoked (validateSync_run vs args)) = applicable_positions args 0 vs"
    using c by simp
  show "map fst (invoked (validateSync_run vs args)) = [0..<length vs]"
    if "arg_validationTypeToValidate args = None"
    using c applicable_positions_all[OF that, of 0 vs] by simp
next
  show "validateSync vs args = logged_failures vs (invoked (validateSync_run vs args))"
    by (simp add: validateSync_def run_logged)
  show "validateAsync_run vs args = validateSync_run vs args"
    by (rule validateAsync_run_eq)
  show "validateAsync vs args = validateSync vs args"
    by (rule validateAsync_eq)
qed

lemmas example_run_defs =
  validateSync_def validateSync_run_def run_start_def validation_step_def runValidation_def
  validator_data_def normalize_error_def getValidationErrorWithMessage_def error_tag_def
  selected_type_def example_passing_def example_failing_def example_throwing_def
  example_required_def example_args_def example_args_on_def example_error_def Let_def

theorem exitOnFail_policy_witness:
  "validateSync [example_failing ''a'' (Some False), example_failing ''b'' None,
                 example_failing ''c'' None] example_args
     = [example_error ''a'' (Present VALIDATION_TYPES_FIELD),
        example_error ''b'' (Present VALIDATION_TYPES_FIELD)]
   \<and> invoked (validateSync_run [example_failing ''a'' (Some False), example_failing ''b'' None,
                                example_failing ''c'' None] example_args)
     = [(0, Returns (Some (example_error ''a'' Absent))),
        (1, Returns (Some (example_error ''b'' Absent)))]
   \<and> validateSync [example_passing, example_failing ''b'' None, example_failing ''c'' None]
        example_args
     = [example_error ''b'' (Present VALIDATION_TYPES_FIELD)]
   \<and> validateAsync [example_passing, example_failing ''b'' None, example_failing ''c'' None]
        example_args
     = [example_error ''b'' (Present VALIDATION_TYPES_FIELD)]
   \<and> validateSync [example_required, example_failing ''b'' (Some False),
                    example_failing ''c'' (Some False)] (example_args_on ''x'')
     = [example_error ''b'' (Present VALIDATION_TYPES_FIELD),
        example_error ''c'' (Present VALIDATION_TYPES_FIELD)]
   \<and> validateAsync [example_required, example_failing ''b'' (Some False),
                    example_failing ''c'' (Some False)] (example_args_on ''x'')
     = [example_error ''b'' (Present VALIDATION_TYPES_FIELD),
        example_error ''c'' (Present VALIDATION_TYPES_FIELD)]
   \<and> map fst (invoked (validateSync_run
         [example_required, example_failing ''b'' (Some False),
          example_failing ''c'' (Some False)] (example_args_on ''x''))) = [0, 1, 2]"
proof -
  let ?a = "example_failing ''a'' (Some False)"
  let ?b = "example_failing ''b'' None"
  let ?c = "example_failing ''c'' None"
  let ?eb = "example_error ''b'' Absent"
  let ?vs = "[example_required, example_failing ''b'' (Some False),
              example_failing ''c'' (Some False)]"
  let ?x = "example_args_on ''x''"
  have ra: "validateSync_run [?a] example_args =
      \<lparr>validationErrors = [example_error ''a'' (Present VALIDATION_TYPES_FIELD)], skip = False,
       invoked = [(0, Returns (Some (example_error ''a'' Absent)))]\<rparr>"
    by (simp add: example_run_defs)
  have rp: "validateSync_run [example_passing] example_args =
      \<lparr>validationErrors = [], skip = False, invoked = [(0, Returns None)]\<rparr>"
    by (simp add: example_run_defs)
  have ap: "applies example_args ?b"
    by (simp add: applies_def example_args_def)
  have vb: "validator ?b d = Returns (Some ?eb)" for d
    by (simp add: example_failing_def)
  have xb: "exitOnFail ?b \<noteq> Some False"
    by (simp add: example_failing_def)
  have sa: "\<not> skip (validateSync_run [?a] example_args)"
    by (simp only: ra) simp
  have sp: "\<not> skip (validateSync_run [example_passing] example_args)"
    by (simp only: rp) simp
  have h1: "\<not> skip (validateSync_run [?a] example_args)
     \<and> applies example_args ?b
     \<and> validator ?b (validator_data example_args (validateSync_run [?a] example_args))
         = Returns (Some ?eb)
     \<and> exitOnFail ?b \<noteq> Some False"
    using sa ap vb xb by blast
  have h1': "\<not> skip (validateSync_run [example_passing] example_args)
     \<and> applies example_args ?b
     \<and> validator ?b (validator_data example_args (validateSync_run [example_passing] example_args))
         = Returns (Some ?eb)
     \<and> exitOnFail ?b \<noteq> Some False"
    using sp ap vb xb by blast
  have e0: "validateSync [example_passing] example_args = []"
    by (simp add: validateSync_def rp)
  have rx: "invoked (validateSync_run ?vs ?x) =
      [(0, Returns None), (1, Returns (Some ?eb)),
       (2, Returns (Some (example_error ''c'' Absent)))]"
    by (simp add: example_run_defs)
  have h2: "\<forall>c\<in>set (invoked (validateSync_run ?vs ?x)). continues (?vs ! fst c) (snd c)"
    by (simp only: rx) (simp add: continues_def example_failing_def)
  have t: "arg_validationTypeToValidate ?x = None"
    by (simp add: example_args_on_def)
  note p1 = exitOnFail_policy[of "[?a]" example_args ?b ?eb "[?c]" "[]",
      THEN conjunct1, THEN mp, OF h1]
  note p1' = exitOnFail_policy[of "[example_passing]" example_args ?b ?eb "[?c]" "[]",
      THEN conjunct1, THEN mp, OF h1']
  note p2 = exitOnFail_policy[of "[]" ?x ?b ?eb "[]" ?vs,
      THEN conjunct2, THEN conjunct1, THEN mp, OF h2]
  note p3 = exitOnFail_policy[of "[]" ?x ?b ?eb "[]" ?vs, THEN conjunct2, THEN conjunct2]
  have n: "normalize_error ?b ?eb = example_error ''b'' (Present VALIDATION_TYPES_FIELD)"
    by (simp add: example_run_defs)
  have 1: "validateSync [?a, ?b, ?c] example_args
     = [example_error ''a'' (Present VALIDATION_TYPES_FIELD),
        example_error ''b'' (Present VALIDATION_TYPES_FIELD)]"
    using p1 n by (simp add: validateSync_def ra)
  have 2: "invoked (validateSync_run [?a, ?b, ?c] example_args)
     = [(0, Returns (Some (example_error ''a'' Absent))), (1, Returns (Some ?eb))]"
    using p1 by (simp add: ra)
  have 3: "validateSync [example_passing, ?b, ?c] example_args
     = [example_error ''b'' (Present VALIDATION_TYPES_FIELD)]"
    using p1' e0 n by simp
  have 4: "validateAsync [example_passing, ?b, ?c] example_args
     = [example_error ''b'' (Present VALIDATION_TYPES_FIELD)]"
    using p1' e0 n by (simp add: validateAsync_eq)
  have l: "logged_failures ?vs (invoked (validateSync_run ?vs ?x)) =
      [example_error ''b'' (Present VALIDATION_TYPES_FIELD),
       example_error ''c'' (Present VALIDATION_TYPES_FIELD)]"
    by (simp only: rx)
       (simp add: logged_failures_def failure_of_def normalize_error_def
        getValidationErrorWithMessage_def error_tag_def example_failing_def example_error_def)
  have 5: "validateSync ?vs ?x
     = [example_error ''b'' (Present VALIDATION_TYPES_FIELD),
        example_error ''c'' (Present VALIDATION_TYPES_FIELD)]"
    using p3 l by simp
  have 6: "validateAsync ?vs ?x
     = [example_error ''b'' (Present VALIDATION_TYPES_FIELD),
        example_error ''c'' (Present VALIDATION_TYPES_FIELD)]"
    using p3 l by simp
  have u: "[0..<length ?vs] = [0, 1, 2]"
    by (simp add: upt_rec)
  have "map fst (invoked (validateSync_run ?vs ?x)) = [0..<length ?vs]"
    using p2 t by blast
  then have 7: "map fst (invoked (validateSync_run ?vs ?x)) = [0, 1, 2]"
    by (simp only: u)
  show ?thesis using 1 2 3 4 5 6 7 by blast
qed

subsection \<open>Validators that throw\<close>

lemma applies_validator_update [simp]:
  "applies args (v\<lparr>validator := g\<rparr>) = applies args v"
  by (simp add: applies_def selected_type_def)

lemma normalize_error_validator_update [simp]:
  "normalize_error (v\<lparr>validator := g\<rparr>) e = normalize_error v e"
  by (simp add: normalize_error_def getValidationErrorWithMessage_def error_tag_def)

lemma step_throws:
  assumes "\<not> skip st" "applies args v"
  shows "validation_step args i (v\<lparr>validator := \<lambda>d. Throws (Some (f d))\<rparr>) st =
     \<lparr>validationErrors = validationErrors st @ [normalize_error v (f (validator_data args st))],
      skip = True,
      invoked = invoked st @ [(i, Throws (Some (f (validator_data args st))))]\<rparr>"
  using step_run[of st args "v\<lparr>validator := \<lambda>d. Throws (Some (f d))\<rparr>" i] assms
  by (simp add: Let_def failure_of_def continues_def)

lemma step_returns:
  assumes "\<not> skip st" "applies args v"
  shows "validation_step args i (v\<lparr>validator := \<lambda>d. Returns (Some (f d))\<rparr>) st =
     \<lparr>validationErrors = validationErrors st @ [normalize_error v (f (validator_data args st))],
      skip = (exitOnFail v \<noteq> Some False),
      invoked = invoked st @ [(i, Returns (Some (f (validator_data args st))))]\<rparr>"
  using step_run[of st args "v\<lparr>validator := \<lambda>d. Returns (Some (f d))\<rparr>" i] assms
  by (simp add: Let_def failure_of_def continues_def)

lemma run_thrown_eq_returned:
  assumes "exitOnFail v \<noteq> Some False"
  shows "validateSync (pre @ v\<lparr>validator := \<lambda>d. Throws (Some (f d))\<rparr> # post) args =
         validateSync (pre @ v\<lparr>validator := \<lambda>d. Returns (Some (f d))\<rparr> # post) args"
proof -
  let ?st = "forEach_validation args 0 pre run_start"
  let ?i = "length pre"
  show ?thesis
  proof (cases "skip ?st \<or> \<not> applies args v")
    case True
    then show ?thesis
      by (simp add: validateSync_def validateSync_run_def forEach_append step_not_run)
  next
    case False
    then have a: "\<not> skip ?st" "applies args v" by simp_all
    show ?thesis
      by (simp add: validateSync_def validateSync_run_def forEach_append
          step_throws[OF a] step_returns[OF a] assms forEach_skip)
  qed
qed

lemma run_split:
  "validateSync_run (pre @ x # post) args =
     forEach_validation args (Suc (length pre)) post
       (validation_step args (length pre) x (validateSync_run pre args))"
  by (simp add: validateSync_run_def forEach_append)

lemma run_thrown:
  assumes "\<not> skip (validateSync_run pre args)" "applies args v"
  shows "validateSync_run (pre @ v\<lparr>validator := \<lambda>d. Throws (Some (f d))\<rparr> # post) args =
     \<lparr>validationErrors = validateSync pre args @
        [normalize_error v (f (validator_data args (validateSync_run pre args)))],
      skip = True,
      invoked = invoked (validateSync_run pre args) @
        [(length pre, Throws (Some (f (validator_data args (validateSync_run pre args)))))]\<rparr>"
  by (simp add: run_split step_throws[OF assms] forEach_skip validateSync_def)

lemma run_returned:
  assumes "\<not> skip (validateSync_run pre args)" "applies args v"
  shows "validateSync_run (pre @ v\<lparr>validator := \<lambda>d. Returns (Some (f d))\<rparr> # post) args =
     forEach_validation args (Suc (length pre)) post
     \<lparr>validationErrors = validateSync pre args @
        [normalize_error v (f (validator_data args (validateSync_run pre args)))],
      skip = (exitOnFail v \<noteq> Some False),
      invoked = invoked (validateSync_run pre args) @
        [(length pre, Returns (Some (f (validator_data args (validateSync_run pre args)))))]\<rparr>"
  by (simp add: run_split step_returns[OF assms] validateSync_def)

lemma run_thrown_positions:
  assumes "exitOnFail v \<noteq> Some False"
  shows "map fst (invoked (validateSync_run
            (pre @ v\<lparr>validator := \<lambda>d. Throws (Some (f d))\<rparr> # post) args))
         = map fst (invoked (validateSync_run
            (pre @ v\<lparr>validator := \<lambda>d. Returns (Some (f d))\<rparr> # post) args))
         \<and> skip (validateSync_run
            (pre @ v\<lparr>validator := \<lambda>d. Throws (Some (f d))\<rparr> # post) args)
         = skip (validateSync_run
            (pre @ v\<lparr>validator := \<lambda>d. Returns (Some (f d))\<rparr> # post) args)"
proof (cases "skip (validateSync_run pre args) \<or> \<not> applies args v")
  case True
  then show ?thesis by (simp add: run_split step_not_run)
next
  case False
  then have a: "\<not> skip (validateSync_run pre args)" "applies args v" by simp_all
  show ?thesis
    by (simp add: run_thrown[OF a] run_returned[OF a] assms forEach_skip)
qed

lemma run_thrown_halts_state:
  assumes "applies args v"
  shows "validateSync_run (pre @ v\<lparr>validator := \<lambda>d. Throws (Some (f d))\<rparr> # post) args =
         validateSync_run (pre @ [v\<lparr>validator := \<lambda>d. Throws (Some (f d))\<rparr>]) args"
proof (cases "skip (validateSync_run pre args)")
  case True
  then show ?thesis by (simp add: run_split step_not_run forEach_skip)
next
  case False
  show ?thesis by (simp add: run_thrown[OF False assms])
qed

text \<open>
  C3 as stated does not hold when \<^verbatim>\<open>exitOnFail\<close> is false: of two validations, the
  first with \<^verbatim>\<open>exitOnFail: false\<close>, a first validator that throws its failure stops the
  run (one error), and a first validator that returns the same failure does not (two
  errors).
\<close>

theorem thrown_failure_counterexample:
  "validateSync [example_throwing ''a'' (Some False), example_failing ''b'' None] example_args
     = [example_error ''a'' (Present VALIDATION_TYPES_FIELD)]
   \<and> validateSync [example_failing ''a'' (Some False), example_failing ''b'' None] example_args
     = [example_error ''a'' (Present VALIDATION_TYPES_FIELD),
        example_error ''b'' (Present VALIDATION_TYPES_FIELD)]
   \<and> validateAsync [example_throwing ''a'' (Some False), example_failing ''b'' None] example_args
     = [example_error ''a'' (Present VALIDATION_TYPES_FIELD)]
   \<and> validateAsync [example_failing ''a'' (Some False), example_failing ''b'' None] example_args
     = [example_error ''a'' (Present VALIDATION_TYPES_FIELD),
        example_error ''b'' (Present VALIDATION_TYPES_FIELD)]"
  by (simp add: validateAsync_eq example_run_defs)

text \<open>
  C3, amended. A validator that throws a failure and one that returns the same failure
  are normalized alike: the same \<^verbatim>\<open>ValidationError\<close> is appended to the error list of
  the run. A thrown failure stops the run whatever \<^verbatim>\<open>exitOnFail\<close> is: the call that
  threw is the last entry of the log of calls, and no validator after it is called. A
  returned failure stops the run in the same way unless \<^verbatim>\<open>exitOnFail\<close> is false; under
  \<^verbatim>\<open>exitOnFail: false\<close> the run goes on with the validations after it. So when
  \<^verbatim>\<open>exitOnFail\<close> is not false, the run with the throwing validator and the run with the
  returning one give the same errors, stop alike and call the validators at the same
  positions, in both modes.
\<close>

theorem thrown_failure_like_returned:
  "(\<not> skip (validateSync_run pre args) \<and> applies args v \<longrightarrow>
      validateSync_run (pre @ v\<lparr>validator := \<lambda>d. Throws (Some (f d))\<rparr> # post) args =
        \<lparr>validationErrors = validateSync pre args @
           [normalize_error v (f (validator_data args (validateSync_run pre args)))],
         skip = True,
         invoked = invoked (validateSync_run pre args) @
           [(length pre, Throws (Some (f (validator_data args (validateSync_run pre args)))))]\<rparr>
      \<and> (exitOnFail v \<noteq> Some False \<longrightarrow>
           validateSync_run (pre @ v\<lparr>validator := \<lambda>d. Returns (Some (f d))\<rparr> # post) args =
             \<lparr>validationErrors = validateSync pre args @
                [normalize_error v (f (validator_data args (validateSync_run pre args)))],
              skip = True,
              invoked = invoked (validateSync_run pre args) @
                [(length pre,
                  Returns (Some (f (validator_data args (validateSync_run pre args)))))]\<rparr>)
      \<and> (exitOnFail v = Some False \<longrightarrow>
           validateSync_run (pre @ v\<lparr>validator := \<lambda>d. Returns (Some (f d))\<rparr> # post) args =
             forEach_validation args (Suc (length pre)) post
               \<lparr>validationErrors = validateSync pre args @
                  [normalize_error v (f (validator_data args (validateSync_run pre args)))],
                skip = False,
                invoked = invoked (validateSync_run pre args) @
                  [(length pre,
                    Returns (Some (f (validator_data args (validateSync_run pre args)))))]\<rparr>))
   \<and> (\<not> skip st \<and> applies args v \<longrightarrow>
      validationErrors (validation_step args i (v\<lparr>validator := \<lambda>d. Throws (Some (f d))\<rparr>) st)
        = validationErrors st @ [normalize_error v (f (validator_data args st))]
      \<and> validationErrors (validation_step args i (v\<lparr>validator := \<lambda>d. Returns (Some (f d))\<rparr>) st)
        = validationErrors st @ [normalize_error v (f (validator_data args st))]
      \<and> skip (validation_step args i (v\<lparr>validator := \<lambda>d. Throws (Some (f d))\<rparr>) st)
      \<and> skip (validation_step args i (v\<lparr>validator := \<lambda>d. Returns (Some (f d))\<rparr>) st)
          = (exitOnFail v \<noteq> Some False))
   \<and> (exitOnFail v \<noteq> Some False \<longrightarrow>
        validateSync (pre @ v\<lparr>validator := \<lambda>d. Throws (Some (f d))\<rparr> # post) args
          = validateSync (pre @ v\<lparr>validator := \<lambda>d. Returns (Some (f d))\<rparr> # post) args
        \<and> validateAsync (pre @ v\<lparr>validator := \<lambda>d. Throws (Some (f d))\<rparr> # post) args
          = validateAsync (pre @ v\<lparr>validator := \<lambda>d. Returns (Some (f d))\<rparr> # post) args
        \<and> map fst (invoked (validateSync_run
              (pre @ v\<lparr>validator := \<lambda>d. Throws (Some (f d))\<rparr> # post) args))
          = map fst (invoked (validateSync_run
              (pre @ v\<lparr>validator := \<lambda>d. Returns (Some (f d))\<rparr> # post) args))
        \<and> skip (validateSync_run
              (pre @ v\<lparr>validator := \<lambda>d. Throws (Some (f d))\<rparr> # post) args)
          = skip (validateSync_run
              (pre @ v\<lparr>validator := \<lambda>d. Returns (Some (f d))\<rparr> # post) args))
   \<and> (applies args v \<longrightarrow>
        validateSync_run (pre @ v\<lparr>validator := \<lambda>d. Throws (Some (f d))\<rparr> # post) args
          = validateSync_run (pre @ [v\<lparr>validator := \<lambda>d. Throws (Some (f d))\<rparr>]) args
        \<and> validateSync (pre @ v\<lparr>validator := \<lambda>d. Throws (Some (f d))\<rparr> # post) args
          = validateSync (pre @ [v\<lparr>validator := \<lambda>d. Throws (Some (f d))\<rparr>]) args
        \<and> validateAsync (pre @ v\<lparr>validator := \<lambda>d. Throws (Some (f d))\<rparr> # post) args
          = validateAsync (pre @ [v\<lparr>validator := \<lambda>d. Throws (Some (f d))\<rparr>]) args)
   \<and> validateAsync_run (pre @ v\<lparr>validator := \<lambda>d. Throws (Some (f d))\<rparr> # post) args
        = validateSync_run (pre @ v\<lparr>validator := \<lambda>d. Throws (Some (f d))\<rparr> # post) args"
proof -
  have 1: "\<not> skip (validateSync_run pre args) \<and> applies args v \<longrightarrow>
      validateSync_run (pre @ v\<lparr>validator := \<lambda>d. Throws (Some (f d))\<rparr> # post) args =
        \<lparr>validationErrors = validateSync pre args @
           [normalize_error v (f (validator_data args (validateSync_run pre args)))],
         skip = True,
         invoked = invoked (validateSync_run pre args) @
           [(length pre, Throws (Some (f (validator_data args (validateSync_run pre args)))))]\<rparr>
      \<and> (exitOnFail v \<noteq> Some False \<longrightarrow>
           validateSync_run (pre @ v\<lparr>validator := \<lambda>d. Returns (Some (f d))\<rparr> # post) args =
             \<lparr>validationErrors = validateSync pre args @
                [normalize_error v (f (validator_data args (validateSync_run pre args)))],
              skip = True,
              invoked = invoked (validateSync_run pre args) @
                [(length pre,
                  Returns (Some (f (validator_data args (validateSync_run pre args)))))]\<rparr>)
      \<and> (exitOnFail v = Some False \<longrightarrow>
           validateSync_run (pre @ v\<lparr>validator := \<lambda>d. Returns (Some (f d))\<rparr> # post) args =
             forEach_validation args (Suc (length pre)) post
               \<lparr>validationErrors = validateSync pre args @
                  [normalize_error v (f (validator_data args (validateSync_run pre args)))],
                skip = False,
                invoked = invoked (validateSync_run pre args) @
                  [(length pre,
                    Returns (Some (f (validator_data args (validateSync_run pre args)))))]\<rparr>)"
  proof (intro impI)
    assume "\<not> skip (validateSync_run pre args) \<and> applies args v"
    then have a: "\<not> skip (validateSync_run pre args)" "applies args v" by simp_all
    show "validateSync_run (pre @ v\<lparr>validator := \<lambda>d. Throws (Some (f d))\<rparr> # post) args =
        \<lparr>validationErrors = validateSync pre args @
           [normalize_error v (f (validator_data args (validateSync_run pre args)))],
         skip = True,
         invoked = invoked (validateSync_run pre args) @
           [(length pre, Throws (Some (f (validator_data args (validateSync_run pre args)))))]\<rparr>
      \<and> (exitOnFail v \<noteq> Some False \<longrightarrow>
           validateSync_run (pre @ v\<lparr>validator := \<lambda>d. Returns (Some (f d))\<rparr> # post) args =
             \<lparr>validationErrors = validateSync pre args @
                [normalize_error v (f (validator_data args (validateSync_run pre args)))],
              skip = True,
              invoked = invoked (validateSync_run pre args) @
                [(length pre,
                  Returns (Some (f (validator_data args (validateSync_run pre args)))))]\<rparr>)
      \<and> (exitOnFail v = Some False \<longrightarrow>
           validateSync_run (pre @ v\<lparr>validator := \<lambda>d. Returns (Some (f d))\<rparr> # post) args =
             forEach_validation args (Suc (length pre)) post
               \<lparr>validationErrors = validateSync pre args @
                  [normalize_error v (f (validator_data args (validateSync_run pre args)))],
                skip = False,
                invoked = invoked (validateSync_run pre args) @
                  [(length pre,
                    Returns (Some (f (validator_data args (validateSync_run pre args)))))]\<rparr>)"
      by (simp add: run_thrown[OF a] run_returned[OF a] forEach_skip)
  qed
  have 2: "\<not> skip st \<and> applies args v \<longrightarrow>
      validationErrors (validation_step args i (v\<lparr>validator := \<lambda>d. Throws (Some (f d))\<rparr>) st)
        = validationErrors st @ [normalize_error v (f (validator_data args st))]
      \<and> validationErrors (validation_step args i (v\<lparr>validator := \<lambda>d. Returns (Some (f d))\<rparr>) st)
        = validationErrors st @ [normalize_error v (f (validator_data args st))]
      \<and> skip (validation_step args i (v\<lparr>validator := \<lambda>d. Throws (Some (f d))\<rparr>) st)
      \<and> skip (validation_step args i (v\<lparr>validator := \<lambda>d. Returns (Some (f d))\<rparr>) st)
          = (exitOnFail v \<noteq> Some False)"
  proof (intro impI)
    assume "\<not> skip st \<and> applies args v"
    then have a: "\<not> skip st" "applies args v" by simp_all
    show "validationErrors (validation_step args i (v\<lparr>validator := \<lambda>d. Throws (Some (f d))\<rparr>) st)
        = validationErrors st @ [normalize_error v (f (validator_data args st))]
      \<and> validationErrors (validation_step args i (v\<lparr>validator := \<lambda>d. Returns (Some (f d))\<rparr>) st)
        = validationErrors st @ [normalize_error v (f (validator_data args st))]
      \<and> skip (validation_step args i (v\<lparr>validator := \<lambda>d. Throws (Some (f d))\<rparr>) st)
      \<and> skip (validation_step args i (v\<lparr>validator := \<lambda>d. Returns (Some (f d))\<rparr>) st)
          = (exitOnFail v \<noteq> Some False)"
      by (simp add: step_throws[OF a] step_returns[OF a])
  qed
  have 3: "exitOnFail v \<noteq> Some False \<longrightarrow>
        validateSync (pre @ v\<lparr>validator := \<lambda>d. Throws (Some (f d))\<rparr> # post) args
          = validateSync (pre @ v\<lparr>validator := \<lambda>d. Returns (Some (f d))\<rparr> # post) args
        \<and> validateAsync (pre @ v\<lparr>validator := \<lambda>d. Throws (Some (f d))\<rparr> # post) args
          = validateAsync (pre @ v\<lparr>validator := \<lambda>d. Returns (Some (f d))\<rparr> # post) args
        \<and> map fst (invoked (validateSync_run
              (pre @ v\<lparr>validator := \<lambda>d. Throws (Some (f d))\<rparr> # post) args))
          = map fst (invoked (validateSync_run
              (pre @ v\<lparr>validator := \<lambda>d. Returns (Some (f d))\<rparr> # post) args))
        \<and> skip (validateSync_run
              (pre @ v\<lparr>validator := \<lambda>d. Throws (Some (f d))\<rparr> # post) args)
          = skip (validateSync_run
              (pre @ v\<lparr>validator := \<lambda>d. Returns (Some (f d))\<rparr> # post) args)"
    using run_thrown_eq_returned[of v pre f post args] run_thrown_positions[of v pre f post args]
    by (simp add: validateAsync_eq)
  have 4: "applies args v \<longrightarrow>
        validateSync_run (pre @ v\<lparr>validator := \<lambda>d. Throws (Some (f d))\<rparr> # post) args
          = validateSync_run (pre @ [v\<lparr>validator := \<lambda>d. Throws (Some (f d))\<rparr>]) args
        \<and> validateSync (pre @ v\<lparr>validator := \<lambda>d. Throws (Some (f d))\<rparr> # post) args
          = validateSync (pre @ [v\<lparr>validator := \<lambda>d. Throws (Some (f d))\<rparr>]) args
        \<and> validateAsync (pre @ v\<lparr>validator := \<lambda>d. Throws (Some (f d))\<rparr> # post) args
          = validateAsync (pre @ [v\<lparr>validator := \<lambda>d. Throws (Some (f d))\<rparr>]) args"
    using run_thrown_halts_state[of args v pre f post]
    by (simp add: validateAsync_eq validateSync_def)
  have 5: "validateAsync_run (pre @ v\<lparr>validator := \<lambda>d. Throws (Some (f d))\<rparr> # post) args
        = validateSync_run (pre @ v\<lparr>validator := \<lambda>d. Throws (Some (f d))\<rparr> # post) args"
    by (rule validateAsync_run_eq)
  show ?thesis using 1 2 3 4 5 by (intro conjI)
qed

theorem thrown_failure_like_returned_witness:
  "invoked (validateSync_run [example_passing, example_throwing ''a'' (Some False),
                             example_failing ''b'' None] example_args)
     = [(0, Returns None), (1, Throws (Some (example_error ''a'' Absent)))]
   \<and> validateSync [example_passing, example_throwing ''a'' (Some False),
                    example_failing ''b'' None] example_args
     = [example_error ''a'' (Present VALIDATION_TYPES_FIELD)]
   \<and> invoked (validateSync_run [example_passing, example_failing ''a'' None,
                                example_failing ''b'' None] example_args)
     = [(0, Returns None), (1, Returns (Some (example_error ''a'' Absent)))]
   \<and> invoked (validateSync_run [example_passing, example_failing ''a'' (Some False),
                                example_failing ''b'' None] example_args)
     = [(0, Returns None), (1, Returns (Some (example_error ''a'' Absent))),
        (2, Returns (Some (example_error ''b'' Absent)))]
   \<and> validationErrors (validation_step example_args 0 (example_throwing ''a'' None) run_start)
     = [example_error ''a'' (Present VALIDATION_TYPES_FIELD)]
   \<and> validationErrors (validation_step example_args 0 (example_failing ''a'' None) run_start)
     = [example_error ''a'' (Present VALIDATION_TYPES_FIELD)]
   \<and> skip (validation_step example_args 0 (example_throwing ''a'' None) run_start)
   \<and> skip (validation_step example_args 0 (example_failing ''a'' None) run_start)
   \<and> validateSync [example_passing, example_throwing ''a'' None, example_failing ''b'' None]
        example_args
      = validateSync [example_passing, example_failing ''a'' None, example_failing ''b'' None]
        example_args
   \<and> validateSync_run [example_throwing ''a'' (Some False), example_failing ''b'' None]
        example_args
      = validateSync_run [example_throwing ''a'' (Some False)] example_args"
proof -
  let ?f = "\<lambda>d :: int ValidatorData. example_error ''a'' Absent"
  let ?p = "[example_passing]"
  let ?b = "[example_failing ''b'' None]"
  have t: "(example_failing ''a'' x)\<lparr>validator := \<lambda>d. Throws (Some (?f d))\<rparr>
           = example_throwing ''a'' x" for x
    by (simp add: example_failing_def example_throwing_def)
  have r: "(example_failing ''a'' x)\<lparr>validator := \<lambda>d. Returns (Some (?f d))\<rparr>
           = example_failing ''a'' x" for x
    by (simp add: example_failing_def)
  have rp: "validateSync_run ?p example_args =
      \<lparr>validationErrors = [], skip = False, invoked = [(0, Returns None)]\<rparr>"
    by (simp add: example_run_defs)
  have ep: "validateSync ?p example_args = []"
    by (simp add: validateSync_def rp)
  have ip: "invoked (validateSync_run ?p example_args) = [(0, Returns None)]"
    by (simp add: rp)
  have sp: "\<not> skip (validateSync_run ?p example_args)"
    by (simp only: rp) simp
  have ap: "applies example_args (example_failing ''a'' x)" for x
    by (simp add: applies_def example_args_def)
  have h0: "\<not> skip (validateSync_run ?p example_args)
            \<and> applies example_args (example_failing ''a'' x)" for x
    using sp ap by blast
  have h1: "\<not> skip run_start \<and> applies example_args (example_failing ''a'' None)"
    using ap by (simp add: run_start_def)
  have x1: "exitOnFail (example_failing ''a'' None) \<noteq> Some False"
    by (simp add: example_failing_def)
  have x2: "exitOnFail (example_failing ''a'' (Some False)) = Some False"
    by (simp add: example_failing_def)
  have n: "normalize_error (example_failing ''a'' x) (example_error ''a'' Absent)
           = example_error ''a'' (Present VALIDATION_TYPES_FIELD)" for x
    by (simp add: example_run_defs)
  have e: "validationErrors run_start = []" by (simp add: run_start_def)
  note w = thrown_failure_like_returned[of ?p example_args "example_failing ''a'' (Some False)"
      ?f ?b run_start 0, unfolded t r n ep ip]
  note u = thrown_failure_like_returned[of ?p example_args "example_failing ''a'' None"
      ?f ?b run_start 0, unfolded t r n ep ip e]
  note q = thrown_failure_like_returned[of "[]" example_args "example_failing ''a'' (Some False)"
      ?f ?b run_start 0, unfolded t r n]
  note w1 = w[THEN conjunct1, THEN mp, OF h0]
  note u1 = u[THEN conjunct1, THEN mp, OF h0]
  note u2 = u[THEN conjunct2, THEN conjunct1, THEN mp, OF h1]
  note u3 = u[THEN conjunct2, THEN conjunct2, THEN conjunct1, THEN mp, OF x1]
  note q4 = q[THEN conjunct2, THEN conjunct2, THEN conjunct2, THEN conjunct1, THEN mp, OF ap]
  have 1: "invoked (validateSync_run [example_passing, example_throwing ''a'' (Some False),
                             example_failing ''b'' None] example_args)
     = [(0, Returns None), (1, Throws (Some (example_error ''a'' Absent)))]"
    using w1 by simp
  have 2: "validateSync [example_passing, example_throwing ''a'' (Some False),
                    example_failing ''b'' None] example_args
     = [example_error ''a'' (Present VALIDATION_TYPES_FIELD)]"
    using w1 by (simp add: validateSync_def)
  have 3: "invoked (validateSync_run [example_passing, example_failing ''a'' None,
                                example_failing ''b'' None] example_args)
     = [(0, Returns None), (1, Returns (Some (example_error ''a'' Absent)))]"
    using u1 x1 by simp
  have "validateSync_run [example_passing, example_failing ''a'' (Some False),
                                example_failing ''b'' None] example_args
     = forEach_validation example_args (Suc (length ?p)) ?b
         \<lparr>validationErrors = [] @ [example_error ''a'' (Present VALIDATION_TYPES_FIELD)],
          skip = False,
          invoked = [(0, Returns None)] @
            [(length ?p, Returns (Some (example_error ''a'' Absent)))]\<rparr>"
    using w1 x2 by simp
  then have 4: "invoked (validateSync_run [example_passing, example_failing ''a'' (Some False),
                                example_failing ''b'' None] example_args)
     = [(0, Returns None), (1, Returns (Some (example_error ''a'' Absent))),
        (2, Returns (Some (example_error ''b'' Absent)))]"
    by (simp add: validation_step_def runValidation_def validator_data_def
        example_failing_def example_args_def selected_type_def Let_def)
  have 5: "validationErrors (validation_step example_args 0 (example_throwing ''a'' None) run_start)
     = [example_error ''a'' (Present VALIDATION_TYPES_FIELD)]
   \<and> validationErrors (validation_step example_args 0 (example_failing ''a'' None) run_start)
     = [example_error ''a'' (Present VALIDATION_TYPES_FIELD)]
   \<and> skip (validation_step example_args 0 (example_throwing ''a'' None) run_start)
   \<and> skip (validation_step example_args 0 (example_failing ''a'' None) run_start)"
    using u2 x1 by simp
  have 6: "validateSync [example_passing, example_throwing ''a'' None, example_failing ''b'' None]
        example_args
      = validateSync [example_passing, example_failing ''a'' None, example_failing ''b'' None]
        example_args"
    using u3 by simp
  have 7: "validateSync_run [example_throwing ''a'' (Some False), example_failing ''b'' None]
        example_args
      = validateSync_run [example_throwing ''a'' (Some False)] example_args"
    using q4 by simp
  show ?thesis using 1 2 3 4 5 6 7 by blast
qed

end
